theory Spec2Isabelle
  imports Main "HOL-Library.Word" "HOL-Library.Signed_Division" "HOL-Library.AList"
begin

unbundle bit_operations_syntax

section \<open>Library functions used by the network code\<close>

text \<open>
  The Go standard library is not part of the repository. The few functions of \<^verbatim>\<open>fmt\<close>,
  \<^verbatim>\<open>net\<close> and \<^verbatim>\<open>hash/fnv\<close> that the code calls are written out here from their documented
  behaviour, on the inputs the code gives them. A Go \<^verbatim>\<open>string\<close> is a sequence of bytes, as
  \<^typ>\<open>string\<close> is; a Go \<^verbatim>\<open>int\<close> is 64 bits wide and is modelled as \<^typ>\<open>int\<close>: the counters
  of this code are compared against small constants before any arithmetic is done on them.
\<close>

type_synonym byte = "8 word"

subsection \<open>Formatting verbs of fmt\<close>

definition decimalDigits :: string where
  "decimalDigits = ''0123456789''"

definition upperHexDigits :: string where
  "upperHexDigits = ''0123456789ABCDEF''"

definition lowerHexDigits :: string where
  "lowerHexDigits = ''0123456789abcdef''"

fun uitoa :: "nat \<Rightarrow> string" where
  "uitoa n = (if n < 10 then [decimalDigits ! n] else uitoa (n div 10) @ [decimalDigits ! (n mod 10)])"

fun uitoX :: "nat \<Rightarrow> string" where
  "uitoX n = (if n < 16 then [upperHexDigits ! n] else uitoX (n div 16) @ [upperHexDigits ! (n mod 16)])"

text \<open>The verb \<^verbatim>\<open>%d\<close> on an int.\<close>

definition fmt_d :: "int \<Rightarrow> string" where
  "fmt_d i = (if i < 0 then CHR ''-'' # uitoa (nat (- i)) else uitoa (nat i))"

text \<open>The verb \<^verbatim>\<open>%d\<close> on a byte.\<close>

definition fmt_d_byte :: "byte \<Rightarrow> string" where
  "fmt_d_byte b = uitoa (unat b)"

text \<open>
  The verb \<^verbatim>\<open>%02X\<close>: upper-case hexadecimal, padded with zeros to a width of two; the sign of
  a negative number counts towards the width.
\<close>

definition fmt_02X :: "int \<Rightarrow> string" where
  "fmt_02X i =
     (if i < 0 then CHR ''-'' # uitoX (nat (- i))
      else let ds = uitoX (nat i) in if length ds < 2 then CHR ''0'' # ds else ds)"

definition fmt_02X_byte :: "byte \<Rightarrow> string" where
  "fmt_02X_byte b = fmt_02X (uint b)"

subsection \<open>Addresses of package net\<close>

text \<open>
  \<^verbatim>\<open>net.IP\<close> and \<^verbatim>\<open>net.IPMask\<close> are byte slices; the nil slice is the empty list. An IPv4
  address has four bytes, or sixteen with the prefix of an IPv4-mapped IPv6 address.
\<close>

type_synonym IP = "byte list"
type_synonym IPMask = "byte list"

record IPNet =
  IP :: IP
  Mask :: IPMask

definition v4InV6Prefix :: "byte list" where
  "v4InV6Prefix = [0, 0, 0, 0, 0, 0, 0, 0, 0, 0, 255, 255]"

definition To4 :: "IP \<Rightarrow> IP" where
  "To4 ip =
     (if length ip = 4 then ip
      else if length ip = 16 \<and> take 12 ip = v4InV6Prefix then drop 12 ip
      else [])"

definition dotted :: "byte list \<Rightarrow> string" where
  "dotted p = fmt_d_byte (p ! 0) @ ''.'' @ fmt_d_byte (p ! 1) @ ''.'' @ fmt_d_byte (p ! 2) @ ''.'' @ fmt_d_byte (p ! 3)"

definition hexString :: "byte list \<Rightarrow> string" where
  "hexString bs = concat (map (\<lambda>b. [lowerHexDigits ! (unat b div 16), lowerHexDigits ! (unat b mod 16)]) bs)"

text \<open>
  \<^verbatim>\<open>IP.String\<close>. The textual form of a proper IPv6 address (with its zero compression) is
  left to the parameter \<open>ip6\<close>: the addresses this code makes are IPv4.
\<close>

definition IP_String :: "(byte list \<Rightarrow> string) \<Rightarrow> IP \<Rightarrow> string" where
  "IP_String ip6 ip =
     (if length ip = 0 then ''<nil>''
      else if length (To4 ip) = 4 then dotted (To4 ip)
      else if length ip = 16 then ip6 ip
      else CHR ''?'' # hexString ip)"

definition IsUnspecified :: "IP \<Rightarrow> bool" where
  "IsUnspecified ip \<longleftrightarrow>
     ip = [0, 0, 0, 0] \<or> ip = v4InV6Prefix @ [0, 0, 0, 0] \<or> ip = replicate 16 0"

text \<open>\<^verbatim>\<open>simpleMaskLength\<close>: the number of leading ones of a mask of ones followed by zeros.\<close>

fun leadingOnes :: "bool list \<Rightarrow> nat" where
  "leadingOnes [] = 0"
| "leadingOnes (b # bs) = (if b then Suc (leadingOnes bs) else 0)"

definition byteBits :: "byte \<Rightarrow> bool list" where
  "byteBits b = map (bit b) [7, 6, 5, 4, 3, 2, 1, 0]"

definition simpleMaskLength :: "IPMask \<Rightarrow> int" where
  "simpleMaskLength m =
     (let bits = concat (map byteBits m); n = leadingOnes bits
      in if list_all Not (drop n bits) then int n else - 1)"

definition IPMask_String :: "IPMask \<Rightarrow> string" where
  "IPMask_String m = (if length m = 0 then ''<nil>'' else hexString m)"

definition networkNumberAndMask :: "IPNet \<Rightarrow> (IP \<times> IPMask) option" where
  "networkNumberAndMask n =
     (let ip = (if To4 (IP n) = [] then IP n else To4 (IP n))
      in if To4 (IP n) = [] \<and> length ip \<noteq> 16 then None
         else if length (Mask n) = 4 then (if length ip \<noteq> 4 then None else Some (ip, Mask n))
         else if length (Mask n) = 16 then Some (ip, if length ip = 4 then drop 12 (Mask n) else Mask n)
         else None)"

text \<open>\<^verbatim>\<open>(*IPNet).String\<close>; the nil pointer is \<open>None\<close>.\<close>

definition IPNet_String :: "(byte list \<Rightarrow> string) \<Rightarrow> IPNet option \<Rightarrow> string" where
  "IPNet_String ip6 n =
     (case n of
        None \<Rightarrow> ''<nil>''
      | Some n \<Rightarrow>
          (case networkNumberAndMask n of
             None \<Rightarrow> ''<nil>''
           | Some (nn, m) \<Rightarrow>
               (let l = simpleMaskLength m
                in if l = - 1 then IP_String ip6 nn @ ''/'' @ IPMask_String m
                   else IP_String ip6 nn @ ''/'' @ uitoa (nat l))))"

subsection \<open>Parsing addresses\<close>

definition isDigit :: "char \<Rightarrow> bool" where
  "isDigit c \<longleftrightarrow> (48::nat) \<le> of_char c \<and> of_char c \<le> (57::nat)"

definition digitVal :: "char \<Rightarrow> nat" where
  "digitVal c = of_char c - 48"

definition decimalValue :: "string \<Rightarrow> nat" where
  "decimalValue s = foldl (\<lambda>n c. n * 10 + digitVal c) 0 s"

definition dtoi :: "string \<Rightarrow> nat option" where
  "dtoi s = (if s \<noteq> [] \<and> list_all isDigit s \<and> decimalValue s < 16777215
             then Some (decimalValue s) else None)"

fun splitOn :: "char \<Rightarrow> string \<Rightarrow> string list" where
  "splitOn c [] = [[]]"
| "splitOn c (x # xs) =
     (if x = c then [] # splitOn c xs
      else (case splitOn c xs of [] \<Rightarrow> [[x]] | f # fs \<Rightarrow> (x # f) # fs))"

definition parseIPv4Field :: "string \<Rightarrow> byte option" where
  "parseIPv4Field f =
     (if f = [] \<or> \<not> list_all isDigit f \<or> (length f > 1 \<and> hd f = CHR ''0'') \<or> decimalValue f > 255
      then None else Some (of_nat (decimalValue f)))"

definition parseIPv4 :: "string \<Rightarrow> IP option" where
  "parseIPv4 s =
     (let fields = map parseIPv4Field (splitOn CHR ''.'' s)
      in if length fields = 4 \<and> list_all (\<lambda>f. f \<noteq> None) fields then Some (map the fields) else None)"

definition cidrByte :: "nat \<Rightarrow> byte" where
  "cidrByte k = of_nat (256 - 2 ^ (8 - k))"

definition CIDRMask :: "nat \<Rightarrow> nat \<Rightarrow> IPMask" where
  "CIDRMask ones bits =
     (if (bits = 32 \<or> bits = 128) \<and> ones \<le> bits
      then map (\<lambda>i. cidrByte (min 8 (ones - 8 * i))) [0..<bits div 8] else [])"

definition IP_Mask :: "IP \<Rightarrow> IPMask \<Rightarrow> IP" where
  "IP_Mask ip m = (if length ip = length m then map2 (AND) ip m else [])"

definition ParseCIDR :: "string \<Rightarrow> IPNet option" where
  "ParseCIDR s =
     (if CHR ''/'' \<notin> set s then None
      else let addr = takeWhile (\<lambda>c. c \<noteq> CHR ''/'') s;
               mask = tl (dropWhile (\<lambda>c. c \<noteq> CHR ''/'') s)
           in case parseIPv4 addr of
                None \<Rightarrow> None
              | Some ip \<Rightarrow>
                  (case dtoi mask of
                     None \<Rightarrow> None
                   | Some n \<Rightarrow>
                       if n > 32 then None
                       else Some \<lparr>IP = IP_Mask ip (CIDRMask n 32), Mask = CIDRMask n 32\<rparr>))"

definition Contains :: "IPNet \<Rightarrow> IP \<Rightarrow> bool" where
  "Contains n ip =
     (let x = (if To4 ip \<noteq> [] then To4 ip else ip)
      in case networkNumberAndMask n of
           None \<Rightarrow> length x = 0
         | Some (nn, m) \<Rightarrow> length x = length nn \<and> map2 (AND) nn m = map2 (AND) x m)"

text \<open>The text of an IPv4 network as \<^verbatim>\<open>fmt.Sprintf("%d.%d.%d.%d/%d", \<dots>)\<close> renders it.\<close>

definition cidrText :: "int \<Rightarrow> int \<Rightarrow> int \<Rightarrow> int \<Rightarrow> int \<Rightarrow> string" where
  "cidrText a b c d n =
     (fmt_d a @ ''.'' @ fmt_d b @ ''.'' @ fmt_d c @ ''.'' @ fmt_d d) @ CHR ''/'' # fmt_d n"

subsection \<open>Scanning with fmt.Sscanf\<close>

definition isHexDigit :: "char \<Rightarrow> bool" where
  "isHexDigit c \<longleftrightarrow> c \<in> set ''0123456789aAbBcCdDeEfF''"

definition hexVal :: "char \<Rightarrow> nat" where
  "hexVal c =
     (let k = (of_char c :: nat)
      in if 48 \<le> k \<and> k \<le> 57 then k - 48 else if 97 \<le> k \<and> k \<le> 102 then k - 87 else k - 55)"

definition hexValue :: "string \<Rightarrow> nat" where
  "hexValue s = foldl (\<lambda>n c. n * 16 + hexVal c) 0 s"

fun skipSpace :: "string \<Rightarrow> string option" where
  "skipSpace [] = Some []"
| "skipSpace (c # cs) =
     (if c = CHR 0x0A then None
      else if c \<in> {CHR '' '', CHR 0x09, CHR 0x0B, CHR 0x0C, CHR 0x0D} then skipSpace cs
      else Some (c # cs))"

definition Sscanf_02X :: "string \<Rightarrow> int option" where
  "Sscanf_02X s =
     (case skipSpace s of
        None \<Rightarrow> None
      | Some t \<Rightarrow>
          (let signed = (t \<noteq> [] \<and> hd t \<in> {CHR ''+'', CHR ''-''});
               body = (if signed then take 1 (tl t) else take 2 t);
               tok = takeWhile isHexDigit body
           in if tok = [] then None
              else if signed \<and> hd t = CHR ''-'' then Some (- int (hexValue tok))
              else Some (int (hexValue tok))))"

section \<open>Errors\<close>

text \<open>
  The errors of the Go code are values made with \<^verbatim>\<open>fmt.Errorf\<close>. An error is modelled by the
  format string of the source and the values given to its verbs (\<open>S\<close> a string, \<open>D\<close> an
  integer, \<open>A\<close> an address); \<open>Wrapf\<close> is a format with \<^verbatim>\<open>%w\<close>, which wraps an inner error. An
  error that comes from the operating system or a library is an \<open>Errorf\<close> with the name of
  the failing call. \<open>Panic\<close> is a run-time panic.
\<close>

datatype arg = S string | D int | A IP

datatype error =
    Panic string
  | Errorf string "arg list"
  | Wrapf string "arg list" error

section \<open>The network binding of a VM\<close>

text \<open>The types of the VM network binding (\<^verbatim>\<open>VMNetwork\<close>, \<^verbatim>\<open>Route\<close>), as the source declares them.\<close>

record Route =
  Destination :: "IPNet option"
  Gateway :: IP
  Metric :: int

record VMNetwork =
  VMID :: string
  NetworkID :: string
  WorkspaceID :: string
  Namespace :: string
  TapDevice :: string
  IPAddress :: IP
  Netmask :: IPMask
  Gateway :: IP
  MacAddress :: string
  DNSServers :: "string list"
  CreatedAt :: int
  VLANID :: int
  IPv6Address :: IP
  Routes :: "Route list"

subsection \<open>The kernel command line of the guest\<close>

text \<open>
  \<^verbatim>\<open>(*VMNetwork).calculateVethHostIP\<close>: the address the guest is told its host side has. The
  subtraction is on a byte and wraps.
\<close>

definition VMNetwork_calculateVethHostIP :: "(byte list \<Rightarrow> string) \<Rightarrow> VMNetwork \<Rightarrow> string" where
  "VMNetwork_calculateVethHostIP ip6 n =
     (if IPAddress n = [] then ''''
      else let ip = To4 (IPAddress n)
           in if ip = [] then ''''
              else IP_String ip6 (ip[3 := ip ! 3 - 1]))"

definition formatNetmask :: "(byte list \<Rightarrow> string) \<Rightarrow> VMNetwork \<Rightarrow> string" where
  "formatNetmask ip6 n =
     (let m = Netmask n
      in if m = [] then ''255.255.255.0''
         else if length m = 4 then dotted m
         else if length m = 16 then dotted (drop 12 m)
         else let maskStr = IP_String ip6 m
              in if length maskStr > 0 \<and> maskStr \<noteq> ''<nil>'' then maskStr else ''255.255.255.0'')"

definition KernelCmdlineArgs :: "(byte list \<Rightarrow> string) \<Rightarrow> VMNetwork \<Rightarrow> string" where
  "KernelCmdlineArgs ip6 n =
     (if IPAddress n = [] then ''''
      else ''ip='' @ IP_String ip6 (IPAddress n) @ ''::'' @ VMNetwork_calculateVethHostIP ip6 n
           @ '':'' @ formatNetmask ip6 n @ '':'' @ ''eth0'' @ '':off'')"

text \<open>
  The loop of \<^verbatim>\<open>buildNetworkKernelArgs\<close> over the routes, \<open>i\<close> being the index of the head of
  the list: a route with a destination and a gateway is appended, and only then is the index
  compared with the limit.
\<close>

definition routeArg :: "(byte list \<Rightarrow> string) \<Rightarrow> Route \<Rightarrow> string" where
  "routeArg ip6 r =
     ''route='' @ IPNet_String ip6 (Destination r) @ '','' @ IP_String ip6 (Route.Gateway r)
       @ '','' @ fmt_d (Metric r)"

fun routeArgs :: "(byte list \<Rightarrow> string) \<Rightarrow> nat \<Rightarrow> Route list \<Rightarrow> string list" where
  "routeArgs ip6 i [] = []"
| "routeArgs ip6 i (r # rs) =
     (if Destination r \<noteq> None \<and> Route.Gateway r \<noteq> []
      then routeArg ip6 r # (if i \<ge> 5 then [] else routeArgs ip6 (Suc i) rs)
      else routeArgs ip6 (Suc i) rs)"

definition buildNetworkKernelArgs :: "(byte list \<Rightarrow> string) \<Rightarrow> VMNetwork option \<Rightarrow> string list" where
  "buildNetworkKernelArgs ip6 networkInfo =
     (case networkInfo of
        None \<Rightarrow> []
      | Some n \<Rightarrow>
          (let ipArg = KernelCmdlineArgs ip6 n
           in (if ipArg \<noteq> '''' then [ipArg] else [])
              @ (if length (DNSServers n) > 0
                 then (''nameserver='' @ DNSServers n ! 0)
                      # (if length (DNSServers n) > 1 then [''nameserver1='' @ DNSServers n ! 1] else [])
                 else [])
              @ routeArgs ip6 0 (Routes n)
              @ (if IPv6Address n \<noteq> [] \<and> \<not> IsUnspecified (IPv6Address n)
                 then [''ipv6='' @ IP_String ip6 (IPv6Address n)] else [])
              @ (if VLANID n > 0 then [''vlan='' @ fmt_d (VLANID n)] else [])))"

text \<open>The tokens of a command line that configure a route.\<close>

definition routeTokens :: "string list \<Rightarrow> string list" where
  "routeTokens args = filter (\<lambda>a. take 6 a = ''route='') args"

section \<open>Device setup\<close>

text \<open>
  \<^verbatim>\<open>calculateVMSubnet\<close> and \<^verbatim>\<open>calculateVethHostIP\<close> of the device setup: the \<^verbatim>\<open>/29\<close> of a VM address and
  its first address, which \<^verbatim>\<open>setupVMNetworking\<close> puts on the host side of the veth pair. Both
  index the address at 3 and panic on a shorter one.
\<close>

definition calculateVMSubnet :: "IP \<Rightarrow> error + string" where
  "calculateVMSubnet ip =
     (if length ip < 4 then Inl (Panic ''index out of range'')
      else let lastOctet = ip ! 3; base = (lastOctet div 8) * 8
           in Inr (fmt_d_byte (ip ! 0) @ ''.'' @ fmt_d_byte (ip ! 1) @ ''.'' @ fmt_d_byte (ip ! 2)
                   @ ''.'' @ fmt_d_byte base @ ''/29''))"

definition calculateVethHostIP :: "IP \<Rightarrow> error + string" where
  "calculateVethHostIP vmIP =
     (if length vmIP < 4 then Inl (Panic ''index out of range'')
      else let lastOctet = vmIP ! 3; base = (lastOctet div 8) * 8
           in Inr (fmt_d_byte (vmIP ! 0) @ ''.'' @ fmt_d_byte (vmIP ! 1) @ ''.'' @ fmt_d_byte (vmIP ! 2)
                   @ ''.'' @ fmt_d_byte (base + 1)))"

text \<open>
  The address that \<^verbatim>\<open>setupVMNetworking\<close> gives to \<^verbatim>\<open>netlink.ParseAddr\<close> and adds to the host
  veth; \<open>None\<close> when the gateway text is empty and the step is skipped.
\<close>

definition setupVMNetworking_hostAddr :: "IP \<Rightarrow> error + string option" where
  "setupVMNetworking_hostAddr ip =
     (case calculateVethHostIP ip of
        Inl e \<Rightarrow> Inl e
      | Inr gatewayIP \<Rightarrow> Inr (if gatewayIP \<noteq> '''' then Some (gatewayIP @ ''/29'') else None))"

section \<open>The tenant fabric manager\<close>

subsection \<open>The FNV-1a hash of hash/fnv\<close>

definition fnv32a :: "string \<Rightarrow> 32 word" where
  "fnv32a s = foldl (\<lambda>h c. (h XOR of_nat (of_char c)) * 16777619) 2166136261 s"

subsection \<open>State\<close>

record ProjectVLAN =
  ProjectID :: string
  VLANNumber :: int
  SubnetCIDR :: string
  NextVMIndex :: int
  CreatedAt :: string

record WorkspaceAllocation =
  WorkspaceID :: string
  BridgeNumber :: int
  BridgeName :: string
  ProjectVLANs :: "(string \<times> ProjectVLAN) list"
  CreatedAt :: string
  VMCount :: int

record MultiBridgeManager =
  bridgeCount :: int
  bridgePrefix :: string
  workspaces :: "(string \<times> WorkspaceAllocation) list"
  bridgeUsage :: "(int \<times> (string \<times> bool) list) list"
  vlanRangeStart :: int
  vlanRangeEnd :: int
  statePath :: string

record MultiBridgeState =
  Workspaces :: "(string \<times> WorkspaceAllocation) list"
  BridgeUsage :: "(int \<times> (string \<times> bool) list) list"
  LastSaved :: int
  Checksum :: string

record Codec =
  Marshal :: "MultiBridgeState \<Rightarrow> byte list"
  MarshalIndent :: "MultiBridgeState \<Rightarrow> byte list"
  Unmarshal :: "byte list \<Rightarrow> MultiBridgeState option"
  Sum256 :: "byte list \<Rightarrow> byte list"
  ParseRFC3339 :: "string \<Rightarrow> bool"

datatype IOFault = MkdirFails | WriteFails | RenameFails

record World =
  files :: "string \<Rightarrow> byte list option"
  faults :: "IOFault option list"
  readFails :: bool
  now :: int
  nowRFC3339 :: string

subsection \<open>Mapping of tenants and projects\<close>

definition GetBridgeForWorkspace :: "MultiBridgeManager \<Rightarrow> string \<Rightarrow> error + int" where
  "GetBridgeForWorkspace mbm workspaceID =
     (if bridgeCount mbm = 0 then Inl (Panic ''integer divide by zero'')
      else Inr (uint (fnv32a workspaceID) smod bridgeCount mbm))"

definition GetVLANForProject :: "MultiBridgeManager \<Rightarrow> string \<Rightarrow> error + int" where
  "GetVLANForProject mbm projectID =
     (let vlanRange = vlanRangeEnd mbm - vlanRangeStart mbm + 1
      in if (of_int vlanRange :: 32 word) = 0 then Inl (Panic ''integer divide by zero'')
         else Inr (uint (fnv32a projectID mod of_int vlanRange) + vlanRangeStart mbm))"

definition calculateVLANSubnet :: "int \<Rightarrow> int \<Rightarrow> string" where
  "calculateVLANSubnet bridgeNumber vlanNumber =
     (let vlanOffset = (vlanNumber smod 8) * 32
      in ''172.16.'' @ fmt_d bridgeNumber @ ''.'' @ fmt_d vlanOffset @ ''/27'')"

definition bridgeNameFor :: "MultiBridgeManager \<Rightarrow> int \<Rightarrow> string" where
  "bridgeNameFor mbm bridgeNumber = bridgePrefix mbm @ ''-'' @ fmt_d bridgeNumber"

definition markBridgeUsage ::
  "int \<Rightarrow> string \<Rightarrow> (int \<times> (string \<times> bool) list) list \<Rightarrow> (int \<times> (string \<times> bool) list) list" where
  "markBridgeUsage bridgeNumber workspaceID usage =
     AList.update bridgeNumber
       (AList.update workspaceID True (case map_of usage bridgeNumber of None \<Rightarrow> [] | Some m \<Rightarrow> m))
       usage"

definition getOrCreateWorkspace ::
  "MultiBridgeManager \<Rightarrow> string \<Rightarrow> string \<Rightarrow> error + WorkspaceAllocation \<times> MultiBridgeManager" where
  "getOrCreateWorkspace mbm workspaceID createdAt =
     (case map_of (workspaces mbm) workspaceID of
        Some allocation \<Rightarrow> Inr (allocation, mbm)
      | None \<Rightarrow>
          (case GetBridgeForWorkspace mbm workspaceID of
             Inl e \<Rightarrow> Inl e
           | Inr bridgeNumber \<Rightarrow>
               (let allocation =
                      \<lparr>WorkspaceID = workspaceID, BridgeNumber = bridgeNumber,
                       BridgeName = bridgeNameFor mbm bridgeNumber, ProjectVLANs = [],
                       CreatedAt = createdAt, VMCount = 0\<rparr>
                in Inr (allocation,
                        mbm\<lparr>workspaces := AList.update workspaceID allocation (workspaces mbm),
                            bridgeUsage := markBridgeUsage bridgeNumber workspaceID (bridgeUsage mbm)\<rparr>))))"

subsection \<open>Persistence\<close>

definition calculateStateChecksum :: "Codec \<Rightarrow> MultiBridgeState \<Rightarrow> string" where
  "calculateStateChecksum js state =
     (let stateForHashing =
            \<lparr>Workspaces = Workspaces state, BridgeUsage = BridgeUsage state,
             LastSaved = LastSaved state, Checksum = ''''\<rparr>
      in hexString (Sum256 js (Marshal js stateForHashing)))"

definition verifyStateChecksum :: "Codec \<Rightarrow> MultiBridgeState \<Rightarrow> error option" where
  "verifyStateChecksum js state =
     (if Checksum state = '''' then None
      else let expectedChecksum = calculateStateChecksum js state
           in if Checksum state \<noteq> expectedChecksum
              then Some (Errorf ''checksum mismatch: stored=%s, calculated=%s''
                           [S (Checksum state), S expectedChecksum])
              else None)"

definition saveState :: "Codec \<Rightarrow> MultiBridgeManager \<Rightarrow> World \<Rightarrow> error option \<times> World" where
  "saveState js mbm w =
     (let fault = (case faults w of [] \<Rightarrow> None | f # _ \<Rightarrow> f);
          w0 = w\<lparr>faults := tl (faults w)\<rparr>
      in if fault = Some MkdirFails
         then (Some (Wrapf ''failed to create state directory: %w'' [] (Errorf ''mkdir'' [])), w0)
         else
           let state = \<lparr>Workspaces = workspaces mbm, BridgeUsage = bridgeUsage mbm,
                        LastSaved = now w, Checksum = ''''\<rparr>;
               checksum = calculateStateChecksum js state;
               data = MarshalIndent js (state\<lparr>Checksum := checksum\<rparr>);
               tmpPath = statePath mbm @ ''.tmp''
           in if fault = Some WriteFails
              then (Some (Wrapf ''failed to write state file: %w'' [] (Errorf ''write'' [])), w0)
              else
                let w1 = w0\<lparr>files := (files w0)(tmpPath \<mapsto> data)\<rparr>
                in if fault = Some RenameFails
                   then (Some (Wrapf ''failed to rename state file: %w'' [] (Errorf ''rename'' [])), w1)
                   else (None, w1\<lparr>files := ((files w1)(tmpPath := None))(statePath mbm \<mapsto> data)\<rparr>))"

fun firstError :: "('a \<Rightarrow> error option) \<Rightarrow> 'a list \<Rightarrow> error option" where
  "firstError f [] = None"
| "firstError f (x # xs) = (case f x of Some e \<Rightarrow> Some e | None \<Rightarrow> firstError f xs)"

definition validateProjectVLAN :: "MultiBridgeManager \<Rightarrow> string \<Rightarrow> ProjectVLAN \<Rightarrow> error option" where
  "validateProjectVLAN mbm projID vlan =
     (if ProjectID vlan \<noteq> projID
      then Some (Errorf ''project ID mismatch: map key %s != struct field %s'' [S projID, S (ProjectID vlan)])
      else if VLANNumber vlan < vlanRangeStart mbm \<or> VLANNumber vlan > vlanRangeEnd mbm
      then Some (Errorf ''VLAN number %d out of range [%d, %d]''
                   [D (VLANNumber vlan), D (vlanRangeStart mbm), D (vlanRangeEnd mbm)])
      else if SubnetCIDR vlan = '''' then Some (Errorf ''subnet CIDR is empty'' [])
      else if ParseCIDR (SubnetCIDR vlan) = None
      then Some (Wrapf ''invalid subnet CIDR %s: %w'' [S (SubnetCIDR vlan)] (Errorf ''invalid CIDR address'' []))
      else if NextVMIndex vlan < 0
      then Some (Errorf ''next VM index %d cannot be negative'' [D (NextVMIndex vlan)])
      else if NextVMIndex vlan > 30
      then Some (Errorf ''next VM index %d exceeds /27 subnet capacity'' [D (NextVMIndex vlan)])
      else None)"

definition validateWorkspace ::
  "Codec \<Rightarrow> MultiBridgeManager \<Rightarrow> string \<Rightarrow> WorkspaceAllocation \<Rightarrow> error option" where
  "validateWorkspace js mbm wsID ws =
     (if WorkspaceID ws \<noteq> wsID
      then Some (Errorf ''workspace ID mismatch: map key %s != struct field %s'' [S wsID, S (WorkspaceID ws)])
      else if BridgeNumber ws < 0 \<or> BridgeNumber ws \<ge> bridgeCount mbm
      then Some (Errorf ''bridge number %d out of range [0, %d)'' [D (BridgeNumber ws), D (bridgeCount mbm)])
      else if BridgeName ws \<noteq> bridgeNameFor mbm (BridgeNumber ws)
      then Some (Errorf ''bridge name mismatch: got %s, expected %s''
                   [S (BridgeName ws), S (bridgeNameFor mbm (BridgeNumber ws))])
      else if VMCount ws < 0 then Some (Errorf ''VM count %d cannot be negative'' [D (VMCount ws)])
      else case firstError
                  (\<lambda>(projID, vlan).
                     map_option (Wrapf ''project %s VLAN validation failed: %w'' [S projID])
                       (validateProjectVLAN mbm projID vlan))
                  (ProjectVLANs ws) of
             Some e \<Rightarrow> Some e
           | None \<Rightarrow>
               if WorkspaceAllocation.CreatedAt ws = '''' then Some (Errorf ''created_at timestamp is empty'' [])
               else if \<not> ParseRFC3339 js (WorkspaceAllocation.CreatedAt ws)
               then Some (Wrapf ''invalid created_at timestamp %s: %w'' [S (WorkspaceAllocation.CreatedAt ws)]
                            (Errorf ''parsing time'' []))
               else None)"

definition expectedUsageOf ::
  "(string \<times> WorkspaceAllocation) list \<Rightarrow> (int \<times> (string \<times> bool) list) list" where
  "expectedUsageOf wss = fold (\<lambda>(wsID, ws) eu. markBridgeUsage (BridgeNumber ws) wsID eu) wss []"

definition mapLen :: "('k \<times> 'v) list option \<Rightarrow> nat" where
  "mapLen m = (case m of None \<Rightarrow> 0 | Some xs \<Rightarrow> length xs)"

definition mapGetBool :: "(string \<times> bool) list option \<Rightarrow> string \<Rightarrow> bool" where
  "mapGetBool m k = (case m of None \<Rightarrow> False | Some xs \<Rightarrow> (case map_of xs k of None \<Rightarrow> False | Some b \<Rightarrow> b))"

definition validateBridgeUsage :: "MultiBridgeManager \<Rightarrow> MultiBridgeState \<Rightarrow> error option" where
  "validateBridgeUsage mbm state =
     (let expectedUsage = expectedUsageOf (Workspaces state)
      in case firstError
                (\<lambda>(bridgeNum, usage).
                   if bridgeNum < 0 \<or> bridgeNum \<ge> bridgeCount mbm
                   then Some (Errorf ''bridge usage contains invalid bridge number %d'' [D bridgeNum])
                   else let expected = map_of expectedUsage bridgeNum
                        in if length usage \<noteq> mapLen expected
                           then Some (Errorf ''bridge %d usage count mismatch: got %d, expected %d''
                                        [D bridgeNum, D (int (length usage)), D (int (mapLen expected))])
                           else firstError
                                  (\<lambda>(wsID, _).
                                     if \<not> mapGetBool expected wsID
                                     then Some (Errorf ''bridge %d usage contains unexpected workspace %s''
                                                  [D bridgeNum, S wsID])
                                     else None)
                                  usage)
                (BridgeUsage state) of
           Some e \<Rightarrow> Some e
         | None \<Rightarrow>
             firstError
               (\<lambda>(bridgeNum, expected).
                  if mapLen (map_of (BridgeUsage state) bridgeNum) \<noteq> length expected
                  then Some (Errorf ''bridge %d missing from usage map or count mismatch'' [D bridgeNum])
                  else None)
               expectedUsage)"

definition validateState :: "Codec \<Rightarrow> MultiBridgeManager \<Rightarrow> MultiBridgeState \<Rightarrow> error option" where
  "validateState js mbm state =
     (case firstError
             (\<lambda>(wsID, ws).
                map_option (Wrapf ''workspace %s validation failed: %w'' [S wsID])
                  (validateWorkspace js mbm wsID ws))
             (Workspaces state) of
        Some e \<Rightarrow> Some e
      | None \<Rightarrow>
          map_option (Wrapf ''bridge usage validation failed: %w'' []) (validateBridgeUsage mbm state))"

definition loadState :: "Codec \<Rightarrow> MultiBridgeManager \<Rightarrow> World \<Rightarrow> error option \<times> MultiBridgeManager" where
  "loadState js mbm w =
     (case files w (statePath mbm) of
        None \<Rightarrow> (None, mbm)
      | Some data \<Rightarrow>
          if readFails w then (Some (Wrapf ''failed to read state file: %w'' [] (Errorf ''read'' [])), mbm)
          else (case Unmarshal js data of
                  None \<Rightarrow> (Some (Wrapf ''failed to unmarshal state: %w'' [] (Errorf ''json'' [])), mbm)
                | Some state \<Rightarrow>
                    (case verifyStateChecksum js state of
                       Some e \<Rightarrow> (Some (Wrapf ''state file checksum verification failed: %w'' [] e), mbm)
                     | None \<Rightarrow>
                         (case validateState js mbm state of
                            Some e \<Rightarrow> (Some (Wrapf ''corrupted state file: %w'' [] e), mbm)
                          | None \<Rightarrow>
                              (None, mbm\<lparr>workspaces := Workspaces state,
                                         bridgeUsage := BridgeUsage state\<rparr>)))))"

subsection \<open>Allocation of VM addresses\<close>

definition validateBridgeAllocation :: "MultiBridgeManager \<Rightarrow> WorkspaceAllocation \<Rightarrow> error option" where
  "validateBridgeAllocation mbm allocation =
     (if BridgeNumber allocation < 0 \<or> BridgeNumber allocation \<ge> bridgeCount mbm
      then Some (Errorf ''bridge number %d is out of range (0-%d)''
                   [D (BridgeNumber allocation), D (bridgeCount mbm - 1)])
      else if WorkspaceID allocation = '''' then Some (Errorf ''workspace ID cannot be empty'' [])
      else if VMCount allocation < 0
      then Some (Errorf ''VM count cannot be negative: %d'' [D (VMCount allocation)])
      else if VMCount allocation \<ge> 5
      then Some (Errorf ''VM count %d exceeds workspace /29 capacity (5 VMs max)'' [D (VMCount allocation)])
      else if BridgeName allocation \<noteq> bridgeNameFor mbm (BridgeNumber allocation)
      then Some (Errorf ''bridge name mismatch: expected %s, got %s''
                   [S (bridgeNameFor mbm (BridgeNumber allocation)), S (BridgeName allocation)])
      else None)"

definition validateVMIPAllocation :: "string \<Rightarrow> int \<Rightarrow> int \<Rightarrow> int \<Rightarrow> error option" where
  "validateVMIPAllocation workspaceID workspaceSubnetBase vmIP vmCount =
     (if workspaceSubnetBase smod 8 \<noteq> 0
      then Some (Errorf ''workspace subnet base %d is not aligned to /29 boundary (must be multiple of 8)''
                   [D workspaceSubnetBase])
      else if workspaceSubnetBase < 0 \<or> workspaceSubnetBase > 248
      then Some (Errorf ''workspace subnet base %d is out of bridge /24 range (0-248)'' [D workspaceSubnetBase])
      else let expectedVMIPMin = workspaceSubnetBase + 2; expectedVMIPMax = workspaceSubnetBase + 6
           in if vmIP < expectedVMIPMin \<or> vmIP > expectedVMIPMax
              then Some (Errorf ''VM IP %d is outside workspace /29 range (%d-%d)''
                           [D vmIP, D expectedVMIPMin, D expectedVMIPMax])
              else let expectedVMIP = workspaceSubnetBase + 2 + vmCount
                   in if vmIP \<noteq> expectedVMIP
                      then Some (Errorf ''VM IP %d does not match expected calculation %d (base=%d + 2 + vmCount=%d)''
                                   [D vmIP, D expectedVMIP, D workspaceSubnetBase, D vmCount])
                      else if vmCount < 0 \<or> vmCount \<ge> 5
                      then Some (Errorf ''VM count %d is invalid (must be 0-4)'' [D vmCount])
                      else None)"

definition bridgeSubnetText :: "int \<Rightarrow> string" where
  "bridgeSubnetText bridgeNumber = ''172.16.'' @ fmt_d bridgeNumber @ ''.0/24''"

definition workspaceSubnetText :: "int \<Rightarrow> int \<Rightarrow> string" where
  "workspaceSubnetText bridgeNumber workspaceSubnetBase =
     ''172.16.'' @ fmt_d bridgeNumber @ ''.'' @ fmt_d workspaceSubnetBase @ ''/29''"

definition validateIPWithinWorkspaceSubnet :: "IP \<Rightarrow> int \<Rightarrow> int \<Rightarrow> error option" where
  "validateIPWithinWorkspaceSubnet ip bridgeNumber workspaceSubnetBase =
     (let workspaceSubnet = workspaceSubnetText bridgeNumber workspaceSubnetBase
      in case ParseCIDR workspaceSubnet of
           None \<Rightarrow> Some (Wrapf ''failed to parse workspace subnet %s: %w'' [S workspaceSubnet]
                            (Errorf ''invalid CIDR address'' []))
         | Some workspaceNet \<Rightarrow>
             if \<not> Contains workspaceNet ip
             then Some (Errorf ''IP %s is not within workspace subnet %s'' [A ip, S workspaceSubnet])
             else let networkIP = To4 (IP workspaceNet)
                  in if networkIP = [] then Some (Errorf ''invalid IPv4 network IP'' [])
                     else let firstUsable = networkIP[3 := networkIP ! 3 + 2];
                              lastUsable = networkIP[3 := networkIP ! 3 + 6];
                              ipv4 = To4 ip
                          in if ipv4 = [] then Some (Errorf ''IP %s is not IPv4'' [A ip])
                             else if ipv4 ! 3 < firstUsable ! 3 \<or> ipv4 ! 3 > lastUsable ! 3
                             then Some (Errorf ''IP %s is not in usable range %s-%s within workspace subnet %s''
                                          [A ip, A firstUsable, A lastUsable, S workspaceSubnet])
                             else None)"

definition setVMCount :: "string \<Rightarrow> int \<Rightarrow> MultiBridgeManager \<Rightarrow> MultiBridgeManager" where
  "setVMCount workspaceID n mbm =
     mbm\<lparr>workspaces :=
           (case map_of (workspaces mbm) workspaceID of
              None \<Rightarrow> workspaces mbm
            | Some allocation \<Rightarrow> AList.update workspaceID (allocation\<lparr>VMCount := n\<rparr>) (workspaces mbm))\<rparr>"

definition AllocateIPForWorkspace ::
  "Codec \<Rightarrow> MultiBridgeManager \<Rightarrow> World \<Rightarrow> string \<Rightarrow> (error + IP \<times> string) \<times> MultiBridgeManager \<times> World" where
  "AllocateIPForWorkspace js mbm w workspaceID =
     (case getOrCreateWorkspace mbm workspaceID (nowRFC3339 w) of
        Inl e \<Rightarrow> (Inl e, mbm, w)
      | Inr (allocation, mbm1) \<Rightarrow>
          (case validateBridgeAllocation mbm1 allocation of
             Some e \<Rightarrow> (Inl (Wrapf ''bridge allocation validation failed: %w'' [] e), mbm1, w)
           | None \<Rightarrow>
               (let bridgeSubnet = bridgeSubnetText (BridgeNumber allocation)
                in case ParseCIDR bridgeSubnet of
                     None \<Rightarrow> (Inl (Wrapf ''invalid bridge subnet %s: %w'' [S bridgeSubnet]
                                      (Errorf ''invalid CIDR address'' [])), mbm1, w)
                   | Some network \<Rightarrow>
                       (let workspaceSubnetIndex = uint (fnv32a workspaceID mod 32);
                            workspaceSubnetBase = workspaceSubnetIndex * 8;
                            vmIP = workspaceSubnetBase + 2 + VMCount allocation
                        in if VMCount allocation \<ge> 5
                           then (Inl (Errorf ''workspace %s /29 subnet is full (5/5 VMs)'' [S workspaceID]), mbm1, w)
                           else
                             (case validateVMIPAllocation workspaceID workspaceSubnetBase vmIP (VMCount allocation) of
                                Some e \<Rightarrow> (Inl (Wrapf ''VM IP allocation validation failed: %w'' [] e), mbm1, w)
                              | None \<Rightarrow>
                                  (let mbm2 = setVMCount workspaceID (VMCount allocation + 1) mbm1;
                                       lastIdx = length (IP network) - 1;
                                       ip = (IP network)[lastIdx := IP network ! lastIdx + of_int vmIP]
                                   in if \<not> Contains network ip
                                      then (Inl (Errorf ''calculated IP %s is outside bridge subnet %s''
                                                   [A ip, S bridgeSubnet]), mbm2, w)
                                      else
                                        (case validateIPWithinWorkspaceSubnet ip (BridgeNumber allocation)
                                                workspaceSubnetBase of
                                           Some e \<Rightarrow> (Inl (Wrapf ''IP subnet validation failed: %w'' [] e), mbm2, w)
                                         | None \<Rightarrow>
                                             (case saveState js mbm2 w of
                                                (Some e, w') \<Rightarrow>
                                                  (Inl (Wrapf ''failed to persist IP allocation state: %w'' [] e),
                                                   setVMCount workspaceID (VMCount allocation + 1 - 1) mbm2, w')
                                              | (None, w') \<Rightarrow>
                                                  (Inr (ip, BridgeName allocation), mbm2, w')))))))))"

definition ReleaseIPForWorkspace ::
  "Codec \<Rightarrow> MultiBridgeManager \<Rightarrow> World \<Rightarrow> string \<Rightarrow> IP \<Rightarrow> error option \<times> MultiBridgeManager \<times> World" where
  "ReleaseIPForWorkspace js mbm w workspaceID ip =
     (case map_of (workspaces mbm) workspaceID of
        None \<Rightarrow> (Some (Errorf ''workspace %s not found'' [S workspaceID]), mbm, w)
      | Some allocation \<Rightarrow>
          (let newCount = (if VMCount allocation > 0 then VMCount allocation - 1 else VMCount allocation);
               mbm1 = setVMCount workspaceID newCount mbm
           in case saveState js mbm1 w of
                (Some e, w') \<Rightarrow>
                  (Some (Wrapf ''failed to persist IP release state: %w'' [] e),
                   setVMCount workspaceID (newCount + 1) mbm1, w')
              | (None, w') \<Rightarrow> (None, mbm1, w')))"

subsection \<open>Project VLANs\<close>

text \<open>\<^verbatim>\<open>GetOrCreateProjectVLAN\<close> and \<^verbatim>\<open>AllocateVMIP\<close> of \<^verbatim>\<open>multibridge.go\<close>.\<close>

definition GetOrCreateProjectVLAN ::
  "MultiBridgeManager \<Rightarrow> string \<Rightarrow> string \<Rightarrow> (error + ProjectVLAN \<times> WorkspaceAllocation) \<times> MultiBridgeManager" where
  "GetOrCreateProjectVLAN mbm workspaceID projectID =
     (case getOrCreateWorkspace mbm workspaceID ''2025-08-13T22:00:00Z'' of
        Inl e \<Rightarrow> (Inl e, mbm)
      | Inr (workspace, mbm1) \<Rightarrow>
          (case map_of (ProjectVLANs workspace) projectID of
             Some projectVLAN \<Rightarrow> (Inr (projectVLAN, workspace), mbm1)
           | None \<Rightarrow>
               (case GetVLANForProject mbm1 projectID of
                  Inl e \<Rightarrow> (Inl e, mbm1)
                | Inr vlanNumber \<Rightarrow>
                    (let subnetCIDR = calculateVLANSubnet (BridgeNumber workspace) vlanNumber;
                         projectVLAN = \<lparr>ProjectID = projectID, VLANNumber = vlanNumber,
                                        SubnetCIDR = subnetCIDR, NextVMIndex = 0,
                                        CreatedAt = ''2025-08-13T22:00:00Z''\<rparr>;
                         workspace2 = workspace\<lparr>ProjectVLANs :=
                                        AList.update projectID projectVLAN (ProjectVLANs workspace)\<rparr>
                     in (Inr (projectVLAN, workspace2),
                         mbm1\<lparr>workspaces := AList.update workspaceID workspace2 (workspaces mbm1)\<rparr>)))))"

definition setNextVMIndex :: "string \<Rightarrow> string \<Rightarrow> int \<Rightarrow> MultiBridgeManager \<Rightarrow> MultiBridgeManager" where
  "setNextVMIndex workspaceID projectID n mbm =
     mbm\<lparr>workspaces :=
           (case map_of (workspaces mbm) workspaceID of
              None \<Rightarrow> workspaces mbm
            | Some workspace \<Rightarrow>
                (case map_of (ProjectVLANs workspace) projectID of
                   None \<Rightarrow> workspaces mbm
                 | Some vlan \<Rightarrow>
                     AList.update workspaceID
                       (workspace\<lparr>ProjectVLANs :=
                          AList.update projectID (vlan\<lparr>NextVMIndex := n\<rparr>) (ProjectVLANs workspace)\<rparr>)
                       (workspaces mbm)))\<rparr>"

definition AllocateVMIP ::
  "MultiBridgeManager \<Rightarrow> string \<Rightarrow> string \<Rightarrow> (error + IP \<times> string) \<times> MultiBridgeManager" where
  "AllocateVMIP mbm workspaceID projectID =
     (case GetOrCreateProjectVLAN mbm workspaceID projectID of
        (Inl e, mbm1) \<Rightarrow> (Inl e, mbm1)
      | (Inr (projectVLAN, workspace), mbm1) \<Rightarrow>
          (case ParseCIDR (SubnetCIDR projectVLAN) of
             None \<Rightarrow> (Inl (Wrapf ''invalid VLAN subnet %s: %w'' [S (SubnetCIDR projectVLAN)]
                              (Errorf ''invalid CIDR address'' [])), mbm1)
           | Some network \<Rightarrow>
               (let nextIP = 2 + NextVMIndex projectVLAN
                in if nextIP > 30
                   then (Inl (Errorf ''project %s VLAN %s is full'' [S projectID, S (SubnetCIDR projectVLAN)]), mbm1)
                   else
                     (let lastIdx = length (IP network) - 1;
                          ip = (IP network)[lastIdx := IP network ! lastIdx + of_int nextIP]
                      in if \<not> Contains network ip
                         then (Inl (Errorf ''calculated IP %s is outside VLAN subnet %s''
                                      [A ip, S (SubnetCIDR projectVLAN)]), mbm1)
                         else (Inr (ip, BridgeName workspace),
                               setNextVMIndex workspaceID projectID (NextVMIndex projectVLAN + 1) mbm1)))))"

text \<open>
  The same two functions in the split sources: \<^verbatim>\<open>GetOrCreateProjectVLAN\<close> of
  \<^verbatim>\<open>multibridge_manager.go\<close>, which stamps the current time and saves the state when it creates
  a VLAN (a failure to save is only logged), and the \<^verbatim>\<open>AllocateVMIP\<close> that persists and rolls
  back.
\<close>

definition GetVLANForProject_v2 :: "MultiBridgeManager \<Rightarrow> string \<Rightarrow> error + int" where
  "GetVLANForProject_v2 mbm projectID =
     (let vlanRange = vlanRangeEnd mbm - vlanRangeStart mbm + 1
      in if vlanRange = 0 then Inl (Panic ''integer divide by zero'')
         else Inr (vlanRangeStart mbm + uint (fnv32a projectID) smod vlanRange))"

definition GetOrCreateProjectVLAN_v2 ::
  "Codec \<Rightarrow> MultiBridgeManager \<Rightarrow> World \<Rightarrow> string \<Rightarrow> string \<Rightarrow>
     (error + ProjectVLAN \<times> WorkspaceAllocation) \<times> MultiBridgeManager \<times> World" where
  "GetOrCreateProjectVLAN_v2 js mbm w workspaceID projectID =
     (case getOrCreateWorkspace mbm workspaceID (nowRFC3339 w) of
        Inl e \<Rightarrow> (Inl e, mbm, w)
      | Inr (workspace, mbm1) \<Rightarrow>
          (case map_of (ProjectVLANs workspace) projectID of
             Some projectVLAN \<Rightarrow> (Inr (projectVLAN, workspace), mbm1, w)
           | None \<Rightarrow>
               (case GetVLANForProject_v2 mbm1 projectID of
                  Inl e \<Rightarrow> (Inl e, mbm1, w)
                | Inr vlanNum \<Rightarrow>
                    (let subnetCIDR = calculateVLANSubnet (BridgeNumber workspace) vlanNum;
                         projectVLAN = \<lparr>ProjectID = projectID, VLANNumber = vlanNum,
                                        SubnetCIDR = subnetCIDR, NextVMIndex = 0,
                                        CreatedAt = nowRFC3339 w\<rparr>;
                         workspace2 = workspace\<lparr>ProjectVLANs :=
                                        AList.update projectID projectVLAN (ProjectVLANs workspace)\<rparr>;
                         mbm2 = mbm1\<lparr>workspaces := AList.update workspaceID workspace2 (workspaces mbm1)\<rparr>
                     in (Inr (projectVLAN, workspace2), mbm2, snd (saveState js mbm2 w))))))"

definition AllocateVMIP_v2 ::
  "Codec \<Rightarrow> MultiBridgeManager \<Rightarrow> World \<Rightarrow> string \<Rightarrow> string \<Rightarrow>
     (error + IP \<times> string) \<times> MultiBridgeManager \<times> World" where
  "AllocateVMIP_v2 js mbm w workspaceID projectID =
     (case GetOrCreateProjectVLAN_v2 js mbm w workspaceID projectID of
        (Inl e, mbm1, w1) \<Rightarrow> (Inl e, mbm1, w1)
      | (Inr (vlan, workspace), mbm1, w1) \<Rightarrow>
          (case ParseCIDR (SubnetCIDR vlan) of
             None \<Rightarrow> (Inl (Wrapf ''invalid VLAN subnet %s: %w'' [S (SubnetCIDR vlan)]
                              (Errorf ''invalid CIDR address'' [])), mbm1, w1)
           | Some vlanNet \<Rightarrow>
               (let vmOffset = NextVMIndex vlan + 2
                in if vmOffset \<ge> 30
                   then (Inl (Errorf ''project VLAN %s is full'' [S projectID]), mbm1, w1)
                   else
                     (let lastIdx = length (IP vlanNet) - 1;
                          ip = (IP vlanNet)[lastIdx := IP vlanNet ! lastIdx + of_int vmOffset];
                          mbm2 = setNextVMIndex workspaceID projectID (NextVMIndex vlan + 1) mbm1
                      in case saveState js mbm2 w1 of
                           (Some e, w2) \<Rightarrow>
                             (Inl (Wrapf ''failed to save state after IP allocation: %w'' [] e),
                              setNextVMIndex workspaceID projectID (NextVMIndex vlan + 1 - 1) mbm2, w2)
                         | (None, w2) \<Rightarrow> (Inr (ip, BridgeName workspace), mbm2, w2)))))"

subsection \<open>Queries\<close>

definition GetWorkspaceInfo :: "MultiBridgeManager \<Rightarrow> string \<Rightarrow> error + WorkspaceAllocation" where
  "GetWorkspaceInfo mbm workspaceID =
     (case map_of (workspaces mbm) workspaceID of
        None \<Rightarrow> Inl (Errorf ''workspace %s not found'' [S workspaceID])
      | Some workspace \<Rightarrow>
          Inr \<lparr>WorkspaceID = WorkspaceID workspace,
               BridgeNumber = BridgeNumber workspace,
               BridgeName = BridgeName workspace,
               ProjectVLANs =
                 map (\<lambda>(projectID, projectVLAN).
                        (projectID,
                         \<lparr>ProjectID = ProjectID projectVLAN, VLANNumber = VLANNumber projectVLAN,
                          SubnetCIDR = SubnetCIDR projectVLAN, NextVMIndex = NextVMIndex projectVLAN,
                          CreatedAt = ProjectVLAN.CreatedAt projectVLAN\<rparr>))
                   (ProjectVLANs workspace),
               CreatedAt = WorkspaceAllocation.CreatedAt workspace,
               VMCount = 0\<rparr>)"

subsection \<open>Tenant MAC addresses\<close>

definition GenerateTenantMAC ::
  "MultiBridgeManager \<Rightarrow> string \<Rightarrow> (byte \<times> byte \<times> byte) option \<Rightarrow> error + string" where
  "GenerateTenantMAC mbm workspaceID rnd =
     (case GetBridgeForWorkspace mbm workspaceID of
        Inl e \<Rightarrow> Inl e
      | Inr bridgeNumber \<Rightarrow>
          (let oui = ''02:'' @ fmt_02X bridgeNumber @ '':4B''
           in case rnd of
                None \<Rightarrow> Inl (Wrapf ''failed to generate random MAC device ID: %w'' [] (Errorf ''rand'' []))
              | Some (d0, d1, d2) \<Rightarrow>
                  (let deviceID = fmt_02X_byte d0 @ '':'' @ fmt_02X_byte d1 @ '':'' @ fmt_02X_byte d2
                   in Inr (oui @ '':'' @ deviceID))))"

definition GenerateSequentialTenantMAC :: "MultiBridgeManager \<Rightarrow> string \<Rightarrow> int \<Rightarrow> error + string" where
  "GenerateSequentialTenantMAC mbm workspaceID vmIndex =
     (case GetBridgeForWorkspace mbm workspaceID of
        Inl e \<Rightarrow> Inl e
      | Inr bridgeNumber \<Rightarrow>
          (let oui = ''02:'' @ fmt_02X bridgeNumber @ '':4B'';
               deviceID = fmt_02X (drop_bit 16 vmIndex AND 255) @ '':''
                          @ fmt_02X (drop_bit 8 vmIndex AND 255) @ '':'' @ fmt_02X (vmIndex AND 255)
           in Inr (oui @ '':'' @ deviceID)))"

definition ParseTenantFromMAC :: "string \<Rightarrow> error + int" where
  "ParseTenantFromMAC macAddr =
     (if length macAddr \<noteq> 17 then Inl (Errorf ''invalid MAC address length: %s'' [S macAddr])
      else if take 2 macAddr \<noteq> ''02'' \<or> take 2 (drop 6 macAddr) \<noteq> ''4B''
      then Inl (Errorf ''MAC address is not unKey tenant format: %s'' [S macAddr])
      else case Sscanf_02X (take 2 (drop 3 macAddr)) of
             None \<Rightarrow> Inl (Errorf ''failed to parse bridge number from MAC: %s'' [S macAddr])
           | Some bridgeNum \<Rightarrow> Inr bridgeNum)"

definition ValidateTenantMAC :: "MultiBridgeManager \<Rightarrow> string \<Rightarrow> string \<Rightarrow> error option" where
  "ValidateTenantMAC mbm workspaceID macAddr =
     (case GetBridgeForWorkspace mbm workspaceID of
        Inl e \<Rightarrow> Some e
      | Inr expectedBridge \<Rightarrow>
          (case ParseTenantFromMAC macAddr of
             Inl e \<Rightarrow> Some (Wrapf ''invalid tenant MAC format: %w'' [] e)
           | Inr actualBridge \<Rightarrow>
               if actualBridge \<noteq> expectedBridge
               then Some (Errorf ''MAC address bridge %d does not match workspace bridge %d''
                            [D actualBridge, D expectedBridge])
               else None))"

subsection \<open>Repair of a loaded state\<close>

definition repairWorkspace ::
  "string \<times> WorkspaceAllocation \<Rightarrow> bool \<times> MultiBridgeManager \<Rightarrow> bool \<times> MultiBridgeManager" where
  "repairWorkspace = (\<lambda>(workspaceID, allocation) (repaired, mbm).
     if BridgeNumber allocation < 0 \<or> BridgeNumber allocation \<ge> bridgeCount mbm
     then (True, mbm\<lparr>workspaces := AList.delete workspaceID (workspaces mbm)\<rparr>)
     else
       (let a1 = (if VMCount allocation > 5 then allocation\<lparr>VMCount := 0\<rparr> else allocation);
            expectedBridgeName = bridgeNameFor mbm (BridgeNumber a1);
            a2 = (if BridgeName a1 \<noteq> expectedBridgeName then a1\<lparr>BridgeName := expectedBridgeName\<rparr> else a1)
        in (repaired \<or> VMCount allocation > 5 \<or> BridgeName a1 \<noteq> expectedBridgeName,
            mbm\<lparr>workspaces := AList.update workspaceID a2 (workspaces mbm),
                bridgeUsage := markBridgeUsage (BridgeNumber a2) workspaceID (bridgeUsage mbm)\<rparr>)))"

definition pruneWorkspaceMap ::
  "(string \<times> WorkspaceAllocation) list \<Rightarrow> (string \<times> bool) list \<Rightarrow> bool \<times> (string \<times> bool) list" where
  "pruneWorkspaceMap wss workspaceMap =
     fold (\<lambda>(workspaceID, _) (repaired, wm).
             if map_of wss workspaceID = None then (True, AList.delete workspaceID wm) else (repaired, wm))
       workspaceMap (False, workspaceMap)"

definition pruneBridge ::
  "int \<times> (string \<times> bool) list \<Rightarrow> bool \<times> MultiBridgeManager \<Rightarrow> bool \<times> MultiBridgeManager" where
  "pruneBridge = (\<lambda>(bridgeNum, workspaceMap) (repaired, mbm).
     let (r, wm) = pruneWorkspaceMap (workspaces mbm) workspaceMap
     in (repaired \<or> r,
         mbm\<lparr>bridgeUsage :=
               (if length wm = 0 then AList.delete bridgeNum (bridgeUsage mbm)
                else AList.update bridgeNum wm (bridgeUsage mbm))\<rparr>))"

definition validateAndRepairState ::
  "Codec \<Rightarrow> MultiBridgeManager \<Rightarrow> World \<Rightarrow> bool \<times> MultiBridgeManager \<times> World" where
  "validateAndRepairState js mbm w =
     (let (r1, mbm1) = fold repairWorkspace (workspaces mbm) (False, mbm);
          (repaired, mbm2) = fold pruneBridge (bridgeUsage mbm1) (r1, mbm1)
      in if repaired then (repaired, mbm2, snd (saveState js mbm2 w)) else (repaired, mbm2, w))"

definition NewMultiBridgeManager ::
  "Codec \<Rightarrow> World \<Rightarrow> int \<Rightarrow> string \<Rightarrow> MultiBridgeManager \<times> World" where
  "NewMultiBridgeManager js w bridgeCount0 bridgePrefix0 =
     (let mbm = \<lparr>bridgeCount = bridgeCount0, bridgePrefix = bridgePrefix0, workspaces = [],
                 bridgeUsage = [], vlanRangeStart = 100, vlanRangeEnd = 4000,
                 statePath = ''/var/lib/metald/multibridge-state.json''\<rparr>
      in case loadState js mbm w of
           (Some e, mbm1) \<Rightarrow> (mbm1, w)
         | (None, mbm1) \<Rightarrow> (case validateAndRepairState js mbm1 w of (repaired, mbm2, w2) \<Rightarrow> (mbm2, w2)))"

section \<open>Example values\<close>

definition mkRoute :: "byte \<Rightarrow> Route" where
  "mkRoute k = \<lparr>Destination = Some \<lparr>IP = [10, k, 0, 0], Mask = [255, 255, 0, 0]\<rparr>,
               Gateway = [172, 16, 2, 17], Metric = 0\<rparr>"

definition exampleNetwork :: "byte \<Rightarrow> Route list \<Rightarrow> VMNetwork" where
  "exampleNetwork l rs =
     \<lparr>VMID = ''ud-0123456789abcdef'', NetworkID = ''0a1b2c3d'', WorkspaceID = ''default'',
      Namespace = ''vn_0a1b2c3d'', TapDevice = ''tap_0a1b2c3d'', IPAddress = [172, 16, 2, l],
      Netmask = [255, 255, 255, 248], Gateway = [172, 16, 2, 17],
      MacAddress = ''02:02:4B:00:00:01'', DNSServers = [''8.8.8.8'', ''8.8.4.4''], CreatedAt = 0,
      VLANID = 0, IPv6Address = [], Routes = rs\<rparr>"

definition mbm8 :: MultiBridgeManager where
  "mbm8 = \<lparr>bridgeCount = 8, bridgePrefix = ''br-vms'', workspaces = [], bridgeUsage = [],
           vlanRangeStart = 100, vlanRangeEnd = 4000,
           statePath = ''/var/lib/metald/multibridge-state.json''\<rparr>"

definition mbmLive :: MultiBridgeManager where
  "mbmLive = mbm8\<lparr>workspaces :=
      [(''ws_A'', \<lparr>WorkspaceID = ''ws_A'', BridgeNumber = 3, BridgeName = ''br-vms-3'',
                  ProjectVLANs = [], CreatedAt = ''2025-08-13T22:00:00Z'', VMCount = 3\<rparr>)],
      bridgeUsage := [(3, [(''ws_A'', True)])]\<rparr>"

text \<open>
  A codec and a world for the examples: no file on disk, no fault pending. The examples do
  not read what is written, so the codec writes nothing.
\<close>

definition nullCodec :: Codec where
  "nullCodec = \<lparr>Marshal = (\<lambda>_. []), MarshalIndent = (\<lambda>_. []), Unmarshal = (\<lambda>_. None),
                 Sum256 = (\<lambda>_. []), ParseRFC3339 = (\<lambda>_. True)\<rparr>"

definition world0 :: World where
  "world0 = \<lparr>files = (\<lambda>_. None), faults = [], readFails = False, now = 0,
              nowRFC3339 = ''2025-08-13T22:00:00Z''\<rparr>"

text \<open>
  The state of \<open>mbmLive\<close>, written when the host had eight bridges, under a manager that is
  configured with 32 bridges.
\<close>

definition mbm32Live :: MultiBridgeManager where
  "mbm32Live = mbmLive\<lparr>bridgeCount := 32\<rparr>"

text \<open>A tenant whose \<^verbatim>\<open>/29\<close> is full.\<close>

definition mbmFull :: MultiBridgeManager where
  "mbmFull = mbm8\<lparr>workspaces :=
      [(''ws_A'', \<lparr>WorkspaceID = ''ws_A'', BridgeNumber = 3, BridgeName = ''br-vms-3'',
                  ProjectVLANs = [], CreatedAt = ''2025-08-13T22:00:00Z'', VMCount = 5\<rparr>)],
      bridgeUsage := [(3, [(''ws_A'', True)])]\<rparr>"

subsection \<open>Comparing the two allocators of project addresses\<close>

text \<open>
  The relation of claim C9 between the results of the two \<^verbatim>\<open>AllocateVMIP\<close>: both fail, or both
  return the same address.
\<close>

definition sameOutcome :: "error + IP \<times> string \<Rightarrow> error + IP \<times> string \<Rightarrow> bool" where
  "sameOutcome r1 r2 =
     (case r1 of
        Inl _ \<Rightarrow> isl r2
      | Inr (ip1, _) \<Rightarrow> (case r2 of Inl _ \<Rightarrow> False | Inr (ip2, _) \<Rightarrow> ip1 = ip2))"

text \<open>
  The index the allocators start from (0 when the project has no VLAN yet), and what the state
  loader and \<^verbatim>\<open>GetOrCreateProjectVLAN\<close> guarantee of a stored VLAN: an index that is not
  negative and a subnet written by \<^verbatim>\<open>calculateVLANSubnet\<close>.
\<close>

definition storedIndex :: "MultiBridgeManager \<Rightarrow> string \<Rightarrow> string \<Rightarrow> int" where
  "storedIndex mbm w p =
     (case map_of (workspaces mbm) w of
        None \<Rightarrow> 0
      | Some a \<Rightarrow> (case map_of (ProjectVLANs a) p of None \<Rightarrow> 0 | Some vl \<Rightarrow> NextVMIndex vl))"

definition goodVLAN :: "ProjectVLAN \<Rightarrow> bool" where
  "goodVLAN vl \<longleftrightarrow> 0 \<le> NextVMIndex vl \<and> (\<exists>b v. 0 \<le> v \<and> SubnetCIDR vl = calculateVLANSubnet b v)"

text \<open>A tenant with one project VLAN, at a given index.\<close>

definition mbmVlan :: "int \<Rightarrow> MultiBridgeManager" where
  "mbmVlan idx = mbm8\<lparr>workspaces :=
      [(''ws_A'', \<lparr>WorkspaceID = ''ws_A'', BridgeNumber = 3, BridgeName = ''br-vms-3'',
                  ProjectVLANs =
                    [(''api'', \<lparr>ProjectID = ''api'', VLANNumber = 3334, SubnetCIDR = ''172.16.3.192/27'',
                               NextVMIndex = idx, CreatedAt = ''2025-08-13T22:00:00Z''\<rparr>)],
                  CreatedAt = ''2025-08-13T22:00:00Z'', VMCount = 0\<rparr>)],
      bridgeUsage := [(3, [(''ws_A'', True)])]\<rparr>"

text \<open>
  A codec of two documents for the examples of persistence: the state of \<open>mbmLive\<close> saved at
  time 0 with the checksum the codec's digest gives (\<open>ab\<close>), encoded as the byte 1, and the
  same document with another checksum (\<open>ff\<close>), encoded as the byte 2.
\<close>

definition savedDoc :: "string \<Rightarrow> MultiBridgeState" where
  "savedDoc c = \<lparr>Workspaces = workspaces mbmLive, BridgeUsage = bridgeUsage mbmLive,
                 LastSaved = 0, Checksum = c\<rparr>"

definition exampleCodec :: Codec where
  "exampleCodec =
     \<lparr>Marshal = (\<lambda>_. []),
      MarshalIndent = (\<lambda>d. if Checksum d = ''ab'' then [1] else [2]),
      Unmarshal = (\<lambda>data. if data = [1] then Some (savedDoc ''ab'')
                          else if data = [2] then Some (savedDoc ''ff'') else None),
      Sum256 = (\<lambda>_. [171]),
      ParseRFC3339 = (\<lambda>_. True)\<rparr>"

definition worldWith :: "byte list \<Rightarrow> World" where
  "worldWith data = world0\<lparr>files := (\<lambda>p. if p = statePath mbm8 then Some data else None)\<rparr>"

subsection \<open>Reading a repaired state\<close>

text \<open>
  \<open>usageEntry u b k\<close> is the Go expression \<^verbatim>\<open>u[b][k]\<close> with its presence flag: \<open>None\<close> when
  bridge \<open>b\<close> has no map or the map has no entry for workspace \<open>k\<close>.
\<close>

definition usageEntry :: "(int \<times> (string \<times> bool) list) list \<Rightarrow> int \<Rightarrow> string \<Rightarrow> bool option" where
  "usageEntry u b k = (case map_of u b of None \<Rightarrow> None | Some m \<Rightarrow> map_of m k)"

text \<open>
  The two tests of the first loop of \<^verbatim>\<open>validateAndRepairState\<close>, named for the proofs: the
  bridge number that makes the loop delete the workspace, and the allocation the loop stores
  otherwise.
\<close>

definition badBridge :: "MultiBridgeManager \<Rightarrow> WorkspaceAllocation \<Rightarrow> bool" where
  "badBridge mbm a \<longleftrightarrow> BridgeNumber a < 0 \<or> BridgeNumber a \<ge> bridgeCount mbm"

definition repairedAllocation :: "MultiBridgeManager \<Rightarrow> WorkspaceAllocation \<Rightarrow> WorkspaceAllocation" where
  "repairedAllocation mbm a =
     a\<lparr>VMCount := (if VMCount a > 5 then 0 else VMCount a),
       BridgeName := bridgeNameFor mbm (BridgeNumber a)\<rparr>"

text \<open>
  A state in need of every repair: \<^verbatim>\<open>ws_A\<close> counts 25 VMs, \<^verbatim>\<open>ws_B\<close> sits on bridge 9 of 8,
  \<^verbatim>\<open>ws_C\<close> carries a wrong bridge name and is missing from the usage map, and the usage map
  names two workspaces that do not exist.
\<close>

definition mbmCorrupt :: MultiBridgeManager where
  "mbmCorrupt = mbm8\<lparr>workspaces :=
      [(''ws_A'', \<lparr>WorkspaceID = ''ws_A'', BridgeNumber = 3, BridgeName = ''br-vms-3'',
                  ProjectVLANs = [], CreatedAt = ''2025-08-13T22:00:00Z'', VMCount = 25\<rparr>),
       (''ws_B'', \<lparr>WorkspaceID = ''ws_B'', BridgeNumber = 9, BridgeName = ''br-vms-9'',
                  ProjectVLANs = [], CreatedAt = ''2025-08-13T22:00:00Z'', VMCount = 1\<rparr>),
       (''ws_C'', \<lparr>WorkspaceID = ''ws_C'', BridgeNumber = 2, BridgeName = ''br-tenant-2'',
                  ProjectVLANs = [], CreatedAt = ''2025-08-13T22:00:00Z'', VMCount = 5\<rparr>)],
      bridgeUsage := [(3, [(''ws_A'', True), (''ws_gone'', True)]), (5, [(''ws_old'', True)])]\<rparr>"

section \<open>Verified properties\<close>

subsection \<open>Printing and parsing\<close>

lemma decimalDigit_nth:
  assumes "k < 10"
  shows "isDigit (decimalDigits ! k)" and "digitVal (decimalDigits ! k) = k"
    and "decimalDigits ! k \<noteq> CHR ''.''" and "decimalDigits ! k \<noteq> CHR ''/''"
    and "decimalDigits ! k = CHR ''0'' \<longleftrightarrow> k = 0"
proof -
  from assms have "k \<in> {0, 1, 2, 3, 4, 5, 6, 7, 8, 9}" by auto
  then show "isDigit (decimalDigits ! k)" and "digitVal (decimalDigits ! k) = k"
    and "decimalDigits ! k \<noteq> CHR ''.''" and "decimalDigits ! k \<noteq> CHR ''/''"
    and "decimalDigits ! k = CHR ''0'' \<longleftrightarrow> k = 0"
    by (auto simp: decimalDigits_def isDigit_def digitVal_def)
qed

declare uitoa.simps [simp del]

lemma uitoa_digits: "list_all isDigit (uitoa n)"
  by (induction n rule: uitoa.induct) (subst uitoa.simps, simp add: decimalDigit_nth)

lemma uitoa_nonempty: "uitoa n \<noteq> []"
  by (subst uitoa.simps) simp

lemma decimalValue_snoc: "decimalValue (s @ [c]) = decimalValue s * 10 + digitVal c"
  by (simp add: decimalValue_def)

lemma uitoa_value: "decimalValue (uitoa n) = n"
proof (induction n rule: uitoa.induct)
  case (1 n)
  show ?case
  proof (cases "n < 10")
    case True
    then show ?thesis
      by (subst uitoa.simps) (simp add: decimalValue_def decimalDigit_nth)
  next
    case False
    then have "decimalValue (uitoa (n div 10)) = n div 10" using 1 by simp
    with False show ?thesis
      by (subst uitoa.simps) (simp add: decimalValue_snoc decimalDigit_nth)
  qed
qed

lemma uitoa_hd: "hd (uitoa n) = CHR ''0'' \<longleftrightarrow> n = 0"
proof (induction n rule: uitoa.induct)
  case (1 n)
  show ?case
  proof (cases "n < 10")
    case True
    then show ?thesis by (subst uitoa.simps) (simp add: decimalDigit_nth)
  next
    case False
    then have ih: "hd (uitoa (n div 10)) = CHR ''0'' \<longleftrightarrow> n div 10 = 0" using 1 by simp
    from False have "n div 10 \<noteq> 0" by simp
    with False ih show ?thesis
      by (subst uitoa.simps) (simp add: uitoa_nonempty)
  qed
qed

lemma uitoa_length_one: "length (uitoa n) > 1 \<Longrightarrow> n \<noteq> 0"
  by (subst (asm) uitoa.simps) (auto split: if_splits)

lemma isDigit_not_sep: "isDigit c \<Longrightarrow> c \<noteq> CHR ''.'' \<and> c \<noteq> CHR ''/'' \<and> c \<noteq> CHR ''-''"
  by (auto simp: isDigit_def)

lemma uitoa_no_sep: "CHR ''.'' \<notin> set (uitoa n)" "CHR ''/'' \<notin> set (uitoa n)"
  using uitoa_digits [of n] isDigit_not_sep by (auto simp: list_all_iff)

lemma parseIPv4Field_uitoa:
  "parseIPv4Field (uitoa n) = (if n \<le> 255 then Some (of_nat n) else None)"
  using uitoa_length_one [of n]
  by (auto simp: parseIPv4Field_def uitoa_digits uitoa_nonempty uitoa_value uitoa_hd)

lemma parseIPv4Field_negative: "parseIPv4Field (CHR ''-'' # s) = None"
  by (simp add: parseIPv4Field_def isDigit_def)

lemma parseIPv4Field_fmt_d:
  "parseIPv4Field (fmt_d i) = (if 0 \<le> i \<and> i \<le> 255 then Some (of_int i) else None)"
  by (auto simp: fmt_d_def parseIPv4Field_negative parseIPv4Field_uitoa)

lemma splitOn_nonempty: "splitOn c s \<noteq> []"
  by (induction s) (auto split: list.splits)

lemma splitOn_none: "c \<notin> set a \<Longrightarrow> splitOn c a = [a]"
  by (induction a) (auto split: list.splits)

lemma splitOn_append: "c \<notin> set a \<Longrightarrow> splitOn c (a @ c # rest) = a # splitOn c rest"
  by (induction a) (auto split: list.splits)

lemma fmt_d_no_sep: "CHR ''.'' \<notin> set (fmt_d i)" "CHR ''/'' \<notin> set (fmt_d i)"
  by (auto simp: fmt_d_def uitoa_no_sep)

lemma parseIPv4_fmt:
  "parseIPv4 (fmt_d a @ ''.'' @ fmt_d b @ ''.'' @ fmt_d c @ ''.'' @ fmt_d d) =
     (if 0 \<le> a \<and> a \<le> 255 \<and> 0 \<le> b \<and> b \<le> 255 \<and> 0 \<le> c \<and> c \<le> 255 \<and> 0 \<le> d \<and> d \<le> 255
      then Some [of_int a, of_int b, of_int c, of_int d] else None)"
  by (simp add: parseIPv4_def splitOn_append splitOn_none fmt_d_no_sep parseIPv4Field_fmt_d)

lemma dtoi_fmt_d: "0 \<le> n \<Longrightarrow> n < 16777215 \<Longrightarrow> dtoi (fmt_d n) = Some (nat n)"
  by (simp add: dtoi_def fmt_d_def uitoa_digits uitoa_nonempty uitoa_value)

lemma takeWhile_sep: "c \<notin> set a \<Longrightarrow> takeWhile (\<lambda>x. x \<noteq> c) (a @ c # rest) = a"
  by (induction a) auto

lemma dropWhile_sep: "c \<notin> set a \<Longrightarrow> dropWhile (\<lambda>x. x \<noteq> c) (a @ c # rest) = c # rest"
  by (induction a) auto

lemma ParseCIDR_split:
  "CHR ''/'' \<notin> set addr \<Longrightarrow>
   ParseCIDR (addr @ CHR ''/'' # m) =
     (case parseIPv4 addr of
        None \<Rightarrow> None
      | Some ip \<Rightarrow>
          (case dtoi m of
             None \<Rightarrow> None
           | Some n \<Rightarrow>
               if n > 32 then None
               else Some \<lparr>IP = IP_Mask ip (CIDRMask n 32), Mask = CIDRMask n 32\<rparr>))"
  by (simp add: ParseCIDR_def takeWhile_sep dropWhile_sep)

lemma ParseCIDR_cidrText:
  assumes "0 \<le> n" "n \<le> 32"
  shows "ParseCIDR (cidrText a b c d n) =
     (if 0 \<le> a \<and> a \<le> 255 \<and> 0 \<le> b \<and> b \<le> 255 \<and> 0 \<le> c \<and> c \<le> 255 \<and> 0 \<le> d \<and> d \<le> 255
      then Some \<lparr>IP = IP_Mask [of_int a, of_int b, of_int c, of_int d] (CIDRMask (nat n) 32),
                 Mask = CIDRMask (nat n) 32\<rparr>
      else None)"
proof -
  have nosep: "CHR ''/'' \<notin> set (fmt_d a @ ''.'' @ fmt_d b @ ''.'' @ fmt_d c @ ''.'' @ fmt_d d)"
    by (simp add: fmt_d_no_sep)
  have p: "parseIPv4 (fmt_d a @ ''.'' @ fmt_d b @ ''.'' @ fmt_d c @ ''.'' @ fmt_d d) =
     (if 0 \<le> a \<and> a \<le> 255 \<and> 0 \<le> b \<and> b \<le> 255 \<and> 0 \<le> c \<and> c \<le> 255 \<and> 0 \<le> d \<and> d \<le> 255
      then Some [of_int a, of_int b, of_int c, of_int d] else None)"
    by (rule parseIPv4_fmt)
  show ?thesis
    unfolding cidrText_def ParseCIDR_split [OF nosep] p
    using assms by (auto simp: dtoi_fmt_d)
qed

lemma fmt_d_numerals:
  "fmt_d 172 = ''172''" "fmt_d 16 = ''16''" "fmt_d 0 = ''0''" "fmt_d 24 = ''24''" "fmt_d 29 = ''29''"
  "fmt_d 27 = ''27''"
  by (simp_all add: fmt_d_def uitoa.simps decimalDigits_def)

lemma CIDRMask_values:
  "CIDRMask 24 32 = [255, 255, 255, 0]" "CIDRMask 29 32 = [255, 255, 255, 248]"
  "CIDRMask 27 32 = [255, 255, 255, 224]"
  by (simp_all add: CIDRMask_def cidrByte_def upt_rec)

lemma upperHexDigit_nth:
  assumes "k < 16"
  shows "isHexDigit (upperHexDigits ! k)" and "hexVal (upperHexDigits ! k) = k"
    and "upperHexDigits ! k \<notin> {CHR ''+'', CHR ''-'', CHR 0x0A, CHR '' '', CHR 0x09, CHR 0x0B, CHR 0x0C, CHR 0x0D}"
proof -
  from assms have "k \<in> {0, 1, 2, 3, 4, 5, 6, 7, 8, 9, 10, 11, 12, 13, 14, 15}" by simp arith
  then show "isHexDigit (upperHexDigits ! k)" and "hexVal (upperHexDigits ! k) = k"
    and "upperHexDigits ! k \<notin> {CHR ''+'', CHR ''-'', CHR 0x0A, CHR '' '', CHR 0x09, CHR 0x0B, CHR 0x0C, CHR 0x0D}"
    by (auto simp: upperHexDigits_def isHexDigit_def hexVal_def)
qed

declare uitoX.simps [simp del]

lemma fmt_02X_small:
  assumes "0 \<le> i" "i \<le> 255"
  shows "fmt_02X i = [upperHexDigits ! (nat i div 16), upperHexDigits ! (nat i mod 16)]"
proof (cases "nat i < 16")
  case True
  then show ?thesis using assms by (simp add: fmt_02X_def uitoX.simps [of "nat i"] upperHexDigits_def)
next
  case False
  then have "nat i div 16 < 16" using assms by auto
  then show ?thesis using assms False
    by (simp add: fmt_02X_def uitoX.simps [of "nat i"] uitoX.simps [of "nat i div 16"])
qed

lemma Sscanf_02X_fmt_02X:
  assumes "0 \<le> i" "i \<le> 255"
  shows "Sscanf_02X (fmt_02X i) = Some i"
proof -
  have a: "nat i div 16 < 16" and b: "nat i mod 16 < 16" using assms by auto
  have "int (nat i div 16 * 16 + nat i mod 16) = i" using assms by simp
  then show ?thesis
    using upperHexDigit_nth [OF a] upperHexDigit_nth [OF b]
    by (simp add: fmt_02X_small [OF assms] Sscanf_02X_def hexValue_def)
qed

lemma fmt_02X_length: "0 \<le> i \<Longrightarrow> i \<le> 255 \<Longrightarrow> length (fmt_02X i) = 2"
  by (simp add: fmt_02X_small)

subsection \<open>Evaluation\<close>

lemmas net_eval =
  routeArg_def IPNet_String_def networkNumberAndMask_def To4_def simpleMaskLength_def
  byteBits_def IP_String_def dotted_def fmt_d_byte_def fmt_d_def decimalDigits_def
  bit_numeral_word_iff KernelCmdlineArgs_def VMNetwork_calculateVethHostIP_def
  formatNetmask_def exampleNetwork_def mkRoute_def calculateVethHostIP_def
  calculateVMSubnet_def setupVMNetworking_hostAddr_def uitoa.simps

subsection \<open>Route tokens of the kernel command line\<close>

lemma routeArgs_length: "length (routeArgs ip6 i rs) \<le> (if i \<le> 5 then 6 - i else 1)"
proof (induction rs arbitrary: i)
  case Nil
  then show ?case by simp
next
  case (Cons r rs)
  have ih: "length (routeArgs ip6 (Suc i) rs) \<le> (if Suc i \<le> 5 then 6 - Suc i else 1)"
    by (rule Cons.IH)
  show ?case using ih by (auto split: if_splits)
qed

lemma routeTokens_routeArgs: "routeTokens (routeArgs ip6 i rs) = routeArgs ip6 i rs"
  by (induction rs arbitrary: i) (auto simp: routeTokens_def routeArg_def)

lemma routeTokens_append: "routeTokens (xs @ ys) = routeTokens xs @ routeTokens ys"
  by (simp add: routeTokens_def)

lemma routeTokens_buildNetworkKernelArgs:
  "routeTokens (buildNetworkKernelArgs ip6 (Some n)) = routeArgs ip6 0 (Routes n)"
  by (simp add: buildNetworkKernelArgs_def Let_def routeTokens_append routeTokens_routeArgs)
     (simp add: routeTokens_def KernelCmdlineArgs_def)

text \<open>
  What the loop guarantees: the index is compared with 5 after the append, so the route at
  index 5, the sixth, is still emitted, and no command line has more than six route tokens.
\<close>

lemma buildNetworkKernelArgs_at_most_six_routes:
  "length (routeTokens (buildNetworkKernelArgs ip6 networkInfo)) \<le> 6"
proof (cases networkInfo)
  case None
  then show ?thesis by (simp add: buildNetworkKernelArgs_def routeTokens_def)
next
  case (Some n)
  then show ?thesis
    using routeArgs_length [of ip6 0 "Routes n"] by (simp add: routeTokens_buildNetworkKernelArgs)
qed

text \<open>
  C8. The claim is that \<^verbatim>\<open>buildNetworkKernelArgs\<close> emits at most five \<^verbatim>\<open>route=\<close> tokens however many
  routes the binding has. The code emits six for a binding with seven complete routes: the
  limit is tested after the sixth has been appended.
\<close>

theorem buildNetworkKernelArgs_emits_six_routes:
  "length (routeTokens (buildNetworkKernelArgs (\<lambda>_. '''')
      (Some (exampleNetwork 18 (map mkRoute [0, 1, 2, 3, 4, 5, 6]))))) = 6"
  by (simp add: routeTokens_buildNetworkKernelArgs exampleNetwork_def mkRoute_def)

subsection \<open>The host address in the guest's ip= token\<close>

text \<open>
  For the first VM of a tenant slot (offset 2) the address in the token is the one the device
  setup installs: the second end-to-end scenario of the specification.
\<close>

lemma KernelCmdlineArgs_first_vm:
  "KernelCmdlineArgs (\<lambda>_. '''') (exampleNetwork 18 []) =
     ''ip=172.16.2.18::172.16.2.17:255.255.255.248:eth0:off''
   \<and> setupVMNetworking_hostAddr [172, 16, 2, 18] = Inr (Some ''172.16.2.17/29'')"
  by (simp add: net_eval)

text \<open>
  C6. The claim is that the host address \<open>T\<close> of the guest's \<^verbatim>\<open>ip=\<close> token, which
  \<^verbatim>\<open>KernelCmdlineArgs\<close> computes as the guest address minus one, is the address that the device
  setup installs on the host veth, the gateway \<open>B + 1\<close> of the \<^verbatim>\<open>/29\<close>. For the second VM of a
  slot, 172.16.2.19, the token names 172.16.2.18 while the setup installs 172.16.2.17.
\<close>

theorem KernelCmdlineArgs_host_ip_differs_from_installed:
  "VMNetwork_calculateVethHostIP (\<lambda>_. '''') (exampleNetwork 19 []) = ''172.16.2.18''
   \<and> KernelCmdlineArgs (\<lambda>_. '''') (exampleNetwork 19 []) =
       ''ip=172.16.2.19::172.16.2.18:255.255.255.248:eth0:off''
   \<and> calculateVethHostIP (IPAddress (exampleNetwork 19 [])) = Inr ''172.16.2.17''
   \<and> setupVMNetworking_hostAddr (IPAddress (exampleNetwork 19 [])) = Inr (Some ''172.16.2.17/29'')"
  by (simp add: net_eval)

subsection \<open>The bridge of a tenant and its MAC addresses\<close>

lemma smod_nonneg: "0 \<le> a \<Longrightarrow> 0 < n \<Longrightarrow> (a::int) smod n = a mod n"
  by (cases "a = 0") (simp_all add: signed_modulo_int_def)

lemma GetBridgeForWorkspace_range:
  assumes "0 < bridgeCount mbm"
  shows "\<exists>b. GetBridgeForWorkspace mbm x = Inr b \<and> 0 \<le> b \<and> b < bridgeCount mbm
             \<and> b = uint (fnv32a x) mod bridgeCount mbm"
proof -
  have "uint (fnv32a x) smod bridgeCount mbm = uint (fnv32a x) mod bridgeCount mbm"
    by (rule smod_nonneg) (use assms in simp_all)
  moreover have "GetBridgeForWorkspace mbm x = Inr (uint (fnv32a x) smod bridgeCount mbm)"
    using assms unfolding GetBridgeForWorkspace_def by simp
  ultimately show ?thesis using assms by simp
qed

lemma fmt_02X_byte_small:
  "fmt_02X_byte d = [upperHexDigits ! (unat d div 16), upperHexDigits ! (unat d mod 16)]"
proof -
  have "uint d \<le> 255" using uint_bounded [of d] by simp
  then have "fmt_02X (uint d) =
      [upperHexDigits ! (nat (uint d) div 16), upperHexDigits ! (nat (uint d) mod 16)]"
    by (intro fmt_02X_small) simp_all
  then show ?thesis by (simp add: fmt_02X_byte_def)
qed

text \<open>
  C3. With a bridge count between 1 and 256, for every workspace id and every three random
  device bytes, \<^verbatim>\<open>GenerateTenantMAC\<close> returns the MAC \<^verbatim>\<open>02:<bridge>:4B:<d0>:<d1>:<d2>\<close>, the bridge
  being two upper-case hexadecimal digits, and \<^verbatim>\<open>ParseTenantFromMAC\<close> of that MAC is the bridge
  index \<^verbatim>\<open>GetBridgeForWorkspace\<close> gives the workspace.
\<close>

theorem ParseTenantFromMAC_GenerateTenantMAC:
  assumes "0 < bridgeCount mbm" and "bridgeCount mbm \<le> 256"
  shows "\<exists>b mac. GetBridgeForWorkspace mbm x = Inr b
           \<and> GenerateTenantMAC mbm x (Some (d0, d1, d2)) = Inr mac
           \<and> mac = ''02:'' @ fmt_02X b @ '':4B:'' @ fmt_02X_byte d0 @ '':'' @ fmt_02X_byte d1
                    @ '':'' @ fmt_02X_byte d2
           \<and> length (fmt_02X b) = 2
           \<and> ParseTenantFromMAC mac = Inr b"
proof -
  from GetBridgeForWorkspace_range [OF assms(1), of x]
  obtain b where b: "GetBridgeForWorkspace mbm x = Inr b" "0 \<le> b" "b < bridgeCount mbm" by blast
  then have b255: "b \<le> 255" using assms(2) by simp
  have scan: "Sscanf_02X [upperHexDigits ! (nat b div 16), upperHexDigits ! (nat b mod 16)] = Some b"
    using Sscanf_02X_fmt_02X [OF b(2) b255] by (simp add: fmt_02X_small [OF b(2) b255])
  show ?thesis
    using b scan
    by (simp add: GenerateTenantMAC_def ParseTenantFromMAC_def fmt_02X_small [OF b(2) b255]
        fmt_02X_byte_small)
qed

text \<open>
  The first end-to-end scenario of the specification: tenant \<^verbatim>\<open>ws_A\<close> with eight bridges is on
  bridge 3.
\<close>

theorem ParseTenantFromMAC_GenerateTenantMAC_witness:
  "(0::int) < 8 \<and> (8::int) \<le> 256
   \<and> GenerateTenantMAC mbm8 ''ws_A'' (Some (0x1F, 0xA0, 0x07)) = Inr ''02:03:4B:1F:A0:07''
   \<and> ParseTenantFromMAC ''02:03:4B:1F:A0:07'' = Inr 3
   \<and> GetBridgeForWorkspace mbm8 ''ws_A'' = Inr 3"
proof -
  have g: "GetBridgeForWorkspace mbm8 ''ws_A'' = Inr 3"
    by (simp add: mbm8_def GetBridgeForWorkspace_def fnv32a_def signed_modulo_int_def)
  have m: "GenerateTenantMAC mbm8 ''ws_A'' (Some (0x1F, 0xA0, 0x07)) = Inr ''02:03:4B:1F:A0:07''"
    by (simp add: GenerateTenantMAC_def mbm8_def GetBridgeForWorkspace_def fnv32a_def
        signed_modulo_int_def fmt_02X_def fmt_02X_byte_def uitoX.simps upperHexDigits_def)
  have h1: "0 < bridgeCount mbm8" and h2: "bridgeCount mbm8 \<le> 256" by (simp_all add: mbm8_def)
  from ParseTenantFromMAC_GenerateTenantMAC [OF h1 h2, of "''ws_A''" "0x1F" "0xA0" "0x07"]
  show ?thesis using g m by auto
qed

subsection \<open>The copy returned by GetWorkspaceInfo\<close>

lemma copy_vlans:
  "map (\<lambda>(projectID, projectVLAN).
          (projectID,
           \<lparr>ProjectID = ProjectID projectVLAN, VLANNumber = VLANNumber projectVLAN,
            SubnetCIDR = SubnetCIDR projectVLAN, NextVMIndex = NextVMIndex projectVLAN,
            CreatedAt = ProjectVLAN.CreatedAt projectVLAN\<rparr>)) vs = vs"
  by (induction vs) auto

text \<open>
  C10. For every workspace the manager holds, \<^verbatim>\<open>GetWorkspaceInfo\<close> of \<^verbatim>\<open>multibridge.go\<close> returns the
  stored allocation with its project VLANs, except that the VM count of the copy is 0
  whatever the stored count is: the literal that builds the copy leaves \<^verbatim>\<open>VMCount\<close> out. The
  query returns a value and no new manager: the manager is the same after it.
\<close>

theorem GetWorkspaceInfo_VMCount_zero:
  assumes "map_of (workspaces mbm) workspaceID = Some a"
  shows "GetWorkspaceInfo mbm workspaceID = Inr (a\<lparr>VMCount := 0\<rparr>)"
  using assms by (simp add: GetWorkspaceInfo_def copy_vlans)

theorem GetWorkspaceInfo_VMCount_zero_witness:
  "map_of (workspaces mbmLive) ''ws_A'' \<noteq> None
   \<and> map_option VMCount (map_of (workspaces mbmLive) ''ws_A'') = Some 3
   \<and> (case GetWorkspaceInfo mbmLive ''ws_A'' of Inl e \<Rightarrow> False | Inr c \<Rightarrow> VMCount c = 0)"
proof -
  have h: "map_of (workspaces mbmLive) ''ws_A'' =
     Some \<lparr>WorkspaceID = ''ws_A'', BridgeNumber = 3, BridgeName = ''br-vms-3'',
           ProjectVLANs = [], CreatedAt = ''2025-08-13T22:00:00Z'', VMCount = 3\<rparr>"
    by (simp add: mbmLive_def)
  from GetWorkspaceInfo_VMCount_zero [OF h] show ?thesis using h by simp
qed

subsection \<open>Allocation of a VM address in the tenant slot\<close>

lemma bridgeSubnetText_cidrText: "bridgeSubnetText b = cidrText 172 16 b 0 24"
  by (simp add: bridgeSubnetText_def cidrText_def fmt_d_numerals)

lemma workspaceSubnetText_cidrText: "workspaceSubnetText b base = cidrText 172 16 b base 29"
  by (simp add: workspaceSubnetText_def cidrText_def fmt_d_numerals)

lemma byte_and_255: "(x::byte) AND 255 = x"
proof -
  have "(255::byte) = - 1" by simp
  then show ?thesis by (simp only: word_bitwise_m1_simps) 
qed

lemma ParseCIDR_bridgeSubnetText:
  "ParseCIDR (bridgeSubnetText b) =
     (if 0 \<le> b \<and> b \<le> 255 then Some \<lparr>IP = [172, 16, of_int b, 0], Mask = [255, 255, 255, 0]\<rparr> else None)"
  by (simp add: bridgeSubnetText_cidrText ParseCIDR_cidrText CIDRMask_values IP_Mask_def byte_and_255)

lemma ParseCIDR_workspaceSubnetText:
  "ParseCIDR (workspaceSubnetText b base) =
     (if 0 \<le> b \<and> b \<le> 255 \<and> 0 \<le> base \<and> base \<le> 255
      then Some \<lparr>IP = [172, 16, of_int b, of_int base AND 248], Mask = [255, 255, 255, 248]\<rparr> else None)"
  by (simp add: workspaceSubnetText_cidrText ParseCIDR_cidrText CIDRMask_values IP_Mask_def byte_and_255)

lemma getOrCreateWorkspace_stored:
  "map_of (workspaces mbm) w = Some a \<Longrightarrow> getOrCreateWorkspace mbm w t = Inr (a, mbm)"
  by (simp add: getOrCreateWorkspace_def)

lemma getOrCreateWorkspace_cases:
  assumes "getOrCreateWorkspace mbm w t = Inr (a, mbm1)"
  shows "bridgeCount mbm1 = bridgeCount mbm
         \<and> (case map_of (workspaces mbm) w of
               None \<Rightarrow> VMCount a = 0 \<and> GetBridgeForWorkspace mbm w = Inr (BridgeNumber a)
             | Some a' \<Rightarrow> a = a' \<and> mbm1 = mbm)"
  using assms
  by (auto simp: getOrCreateWorkspace_def Let_def split: option.splits sum.splits)

lemma validateBridgeAllocation_None:
  "validateBridgeAllocation mbm a = None \<longleftrightarrow>
     0 \<le> BridgeNumber a \<and> BridgeNumber a < bridgeCount mbm \<and> WorkspaceID a \<noteq> ''''
     \<and> 0 \<le> VMCount a \<and> VMCount a < 5 \<and> BridgeName a = bridgeNameFor mbm (BridgeNumber a)"
  by (auto simp: validateBridgeAllocation_def)

lemma AllocateIPForWorkspace_Inr:
  assumes "AllocateIPForWorkspace js mbm wld w = (Inr (ip, name), mbm', wld')"
  shows "\<exists>a mbm1. getOrCreateWorkspace mbm w (nowRFC3339 wld) = Inr (a, mbm1)
          \<and> validateBridgeAllocation mbm1 a = None
          \<and> BridgeNumber a \<le> 255
          \<and> ip = [172, 16, of_int (BridgeNumber a),
                   of_int (uint (fnv32a w mod 32) * 8 + 2 + VMCount a)]
          \<and> name = BridgeName a
          \<and> mbm' = setVMCount w (VMCount a + 1) mbm1
          \<and> saveState js mbm' wld = (None, wld')"
  using assms
  unfolding AllocateIPForWorkspace_def Let_def
  by (auto simp: ParseCIDR_bridgeSubnetText split: sum.splits option.splits prod.splits if_splits)

lemma byte_of_int_uint: "0 \<le> x \<Longrightarrow> x < 256 \<Longrightarrow> uint (word_of_int x :: byte) = x"
  by (simp add: uint_word_of_int take_bit_int_eq_self)

lemma slot_base:
  assumes "0 \<le> s" "s < 32" "0 \<le> k" "k < 5"
  shows "((word_of_int (s * 8 + 2 + k) :: byte) div 8) * 8 = word_of_int (s * 8)"
proof -
  let ?x = "s * 8 + 2 + k"
  have x: "0 \<le> ?x" "?x < 256" using assms by auto
  have "uint ((word_of_int ?x :: byte) div 8) = uint (word_of_int ?x :: byte) div 8"
    by (simp add: uint_div)
  also have "\<dots> = ?x div 8" using byte_of_int_uint [OF x] by simp
  also have "\<dots> = s" using assms by auto
  finally have "(word_of_int ?x :: byte) div 8 = word_of_int s"
    by (metis word_of_int_uint)
  then show ?thesis by simp
qed

lemma hash_ws_A: "fnv32a ''ws_A'' = 2938317971"
  by (simp add: fnv32a_def)

lemmas alloc_eval =
  AllocateIPForWorkspace_def getOrCreateWorkspace_def GetBridgeForWorkspace_def mbm32Live_def
  mbmLive_def mbmFull_def mbm8_def validateBridgeAllocation_def bridgeNameFor_def fmt_d_def
  uitoa.simps decimalDigits_def ParseCIDR_bridgeSubnetText hash_ws_A validateVMIPAllocation_def
  signed_modulo_int_def setVMCount_def markBridgeUsage_def Contains_def networkNumberAndMask_def
  To4_def validateIPWithinWorkspaceSubnet_def ParseCIDR_workspaceSubnetText saveState_def
  world0_def nullCodec_def Let_def

text \<open>
  C2. When the stored VM count of a workspace is 5, \<^verbatim>\<open>AllocateIPForWorkspace\<close> fails and leaves the
  manager, with the count, and the world, with the state file, as they were. The error is the
  one of \<^verbatim>\<open>validateBridgeAllocation\<close>, which runs first; for a stored allocation with a bridge
  number in range and a workspace id, as every allocation the manager makes or loads has
  (the empty tenant id apart), it is the error of the exhausted \<^verbatim>\<open>/29\<close>.
\<close>

theorem AllocateIPForWorkspace_full:
  assumes "map_of (workspaces mbm) w = Some a" and "VMCount a = 5"
  shows "\<exists>e. AllocateIPForWorkspace js mbm wld w =
               (Inl (Wrapf ''bridge allocation validation failed: %w'' [] e), mbm, wld)
           \<and> (0 \<le> BridgeNumber a \<and> BridgeNumber a < bridgeCount mbm \<and> WorkspaceID a \<noteq> '''' \<longrightarrow>
                e = Errorf ''VM count %d exceeds workspace /29 capacity (5 VMs max)'' [D 5])"
  using assms
  by (simp add: AllocateIPForWorkspace_def getOrCreateWorkspace_stored validateBridgeAllocation_def)

theorem AllocateIPForWorkspace_full_witness:
  "map_of (workspaces mbmFull) ''ws_A'' \<noteq> None
   \<and> AllocateIPForWorkspace nullCodec mbmFull world0 ''ws_A'' =
       (Inl (Wrapf ''bridge allocation validation failed: %w'' []
               (Errorf ''VM count %d exceeds workspace /29 capacity (5 VMs max)'' [D 5])),
        mbmFull, world0)"
proof -
  let ?a = "\<lparr>WorkspaceID = ''ws_A'', BridgeNumber = 3, BridgeName = ''br-vms-3'',
             ProjectVLANs = [], CreatedAt = ''2025-08-13T22:00:00Z'', VMCount = 5\<rparr>"
  have h: "map_of (workspaces mbmFull) ''ws_A'' = Some ?a" by (simp add: mbmFull_def)
  have c: "VMCount ?a = 5" by simp
  have n: "bridgeCount mbmFull = 8" by (simp add: mbmFull_def mbm8_def)
  from AllocateIPForWorkspace_full [OF h c, of nullCodec world0]
  show ?thesis using h n by auto
qed

text \<open>
  C1, as stated, fails for a stored allocation whose bridge number is not the hash of the
  tenant under the current bridge count: the state loader checks the range and the name of
  the bridge, not the hash. Tenant \<^verbatim>\<open>ws_A\<close> was put on bridge 3 when the host had eight bridges;
  with 32 bridges its hash gives bridge 19, and the address allocated is still on bridge 3.
\<close>

theorem AllocateIPForWorkspace_stored_bridge_counterexample:
  "fst (AllocateIPForWorkspace nullCodec mbm32Live world0 ''ws_A'') =
     Inr ([172, 16, 3, 157], ''br-vms-3'')
   \<and> uint (fnv32a ''ws_A'') mod bridgeCount mbm32Live = 19
   \<and> uint (fnv32a ''ws_A'') mod 32 = 19
   \<and> map_option VMCount (map_of (workspaces mbm32Live) ''ws_A'') = Some 3"
  by (simp add: alloc_eval)

text \<open>
  C1, amended. Whenever \<^verbatim>\<open>AllocateIPForWorkspace\<close> returns an address, the stored VM count \<open>k\<close>
  (0 for a new tenant) is in \<open>0..4\<close> and the address is \<^verbatim>\<open>172.16.b.(s*8 + 2 + k)\<close>, where \<open>s\<close> is
  the hash of the tenant modulo 32 and \<open>b\<close> is the bridge number of the tenant's allocation:
  the hash modulo the bridge count when the call creates the allocation, the stored number
  otherwise. The last octet is \<open>base + 2 + k\<close> for \<open>base = (last div 8) * 8 = s * 8\<close>; the
  gateway that the device setup computes is \<open>base + 1\<close> and its subnet is \<open>base/29\<close>.
\<close>

theorem AllocateIPForWorkspace_address:
  assumes "AllocateIPForWorkspace js mbm wld w = (Inr (ip, name), mbm', wld')"
  shows "\<exists>b k s. (case map_of (workspaces mbm) w of
                     None \<Rightarrow> k = 0 \<and> b = uint (fnv32a w) mod bridgeCount mbm
                   | Some a \<Rightarrow> k = VMCount a \<and> b = BridgeNumber a)
           \<and> s = uint (fnv32a w) mod 32
           \<and> 0 \<le> k \<and> k < 5 \<and> 0 \<le> b \<and> b \<le> 255 \<and> b < bridgeCount mbm
           \<and> ip = [172, 16, of_int b, of_int (s * 8 + 2 + k)]
           \<and> uint (ip ! 3) = s * 8 + 2 + k
           \<and> (ip ! 3 div 8) * 8 = of_int (s * 8)
           \<and> calculateVethHostIP ip = Inr (dotted [172, 16, of_int b, of_int (s * 8) + 1])
           \<and> calculateVMSubnet ip = Inr (dotted [172, 16, of_int b, of_int (s * 8)] @ ''/29'')"
proof -
  from AllocateIPForWorkspace_Inr [OF assms]
  obtain a mbm1 where g: "getOrCreateWorkspace mbm w (nowRFC3339 wld) = Inr (a, mbm1)"
    and v: "validateBridgeAllocation mbm1 a = None" and b255: "BridgeNumber a \<le> 255"
    and ip: "ip = [172, 16, of_int (BridgeNumber a), of_int (uint (fnv32a w mod 32) * 8 + 2 + VMCount a)]"
    by blast
  define s where "s = uint (fnv32a w) mod 32"
  have s: "0 \<le> s" "s < 32" by (simp_all add: s_def)
  have s2: "uint (fnv32a w mod 32) = s" by (simp add: s_def uint_mod)
  from getOrCreateWorkspace_cases [OF g] have bc: "bridgeCount mbm1 = bridgeCount mbm"
    and cs: "case map_of (workspaces mbm) w of
               None \<Rightarrow> VMCount a = 0 \<and> GetBridgeForWorkspace mbm w = Inr (BridgeNumber a)
             | Some a' \<Rightarrow> a = a' \<and> mbm1 = mbm" by simp_all
  from v have va: "0 \<le> BridgeNumber a" "BridgeNumber a < bridgeCount mbm" "0 \<le> VMCount a" "VMCount a < 5"
    by (simp_all add: validateBridgeAllocation_None bc)
  have fresh: "GetBridgeForWorkspace mbm w = Inr (BridgeNumber a) \<Longrightarrow>
               BridgeNumber a = uint (fnv32a w) mod bridgeCount mbm"
    using GetBridgeForWorkspace_range [of mbm w] va by auto
  have c1: "case map_of (workspaces mbm) w of
              None \<Rightarrow> VMCount a = 0 \<and> BridgeNumber a = uint (fnv32a w) mod bridgeCount mbm
            | Some a' \<Rightarrow> VMCount a = VMCount a' \<and> BridgeNumber a = BridgeNumber a'"
    using cs fresh by (auto split: option.splits)
  have x: "0 \<le> s * 8 + 2 + VMCount a" "s * 8 + 2 + VMCount a < 256" using s va by auto
  have ip': "ip = [172, 16, of_int (BridgeNumber a), of_int (s * 8 + 2 + VMCount a)]"
    using ip s2 by simp
  have u: "uint (ip ! 3) = s * 8 + 2 + VMCount a"
    using byte_of_int_uint [OF x] by (simp add: ip')
  have base: "(ip ! 3 div 8) * 8 = of_int (s * 8)"
    using slot_base [OF s va(3,4)] by (simp add: ip')
  have gw: "calculateVethHostIP ip = Inr (dotted [172, 16, of_int (BridgeNumber a), of_int (s * 8) + 1])"
    using base by (simp add: calculateVethHostIP_def ip' dotted_def Let_def)
  have sn: "calculateVMSubnet ip = Inr (dotted [172, 16, of_int (BridgeNumber a), of_int (s * 8)] @ ''/29'')"
    using base by (simp add: calculateVMSubnet_def ip' dotted_def Let_def)
  show ?thesis
    apply (rule exI [of _ "BridgeNumber a"], rule exI [of _ "VMCount a"], rule exI [of _ s])
    using c1 va b255 ip' u base gw sn s_def by (auto split: option.splits)
qed

theorem AllocateIPForWorkspace_address_witness:
  "fst (AllocateIPForWorkspace nullCodec mbm8 world0 ''ws_A'') = Inr ([172, 16, 3, 154], ''br-vms-3'')
   \<and> map_of (workspaces mbm8) ''ws_A'' = None
   \<and> uint (fnv32a ''ws_A'') mod bridgeCount mbm8 = 3
   \<and> uint (fnv32a ''ws_A'') mod 32 = 19
   \<and> calculateVethHostIP [172, 16, 3, 154] = Inr ''172.16.3.153''
   \<and> calculateVMSubnet [172, 16, 3, 154] = Inr ''172.16.3.152/29''"
proof -
  let ?r = "AllocateIPForWorkspace nullCodec mbm8 world0 ''ws_A''"
  have f: "fst ?r = Inr ([172, 16, 3, 154], ''br-vms-3'')" by (simp add: alloc_eval)
  then have e: "?r = (Inr ([172, 16, 3, 154], ''br-vms-3''), fst (snd ?r), snd (snd ?r))"
    by (simp add: prod_eq_iff)
  have m: "map_of (workspaces mbm8) ''ws_A'' = None" by (simp add: mbm8_def)
  from AllocateIPForWorkspace_address [OF e]
  have "calculateVethHostIP [172, 16, 3, 154] = Inr (dotted [172, 16, 3, 152 + 1])
        \<and> calculateVMSubnet [172, 16, 3, 154] = Inr (dotted [172, 16, 3, 152] @ ''/29'')"
    by (auto simp: m hash_ws_A mbm8_def)
  then show ?thesis
    using f m by (simp add: hash_ws_A mbm8_def dotted_def fmt_d_byte_def uitoa.simps decimalDigits_def)
qed

subsection \<open>The two allocators of project addresses\<close>

lemma vlan_block:
  assumes "0 \<le> j" "j < 8" "0 \<le> n" "n < 32"
  shows "((word_of_int (j * 32) :: byte) + word_of_int n) AND 224 = word_of_int (j * 32)"
proof -
  from assms have j: "j \<in> {0, 1, 2, 3, 4, 5, 6, 7}" by simp arith
  from assms have n: "n \<in> {0, 1, 2, 3, 4, 5, 6, 7, 8, 9, 10, 11, 12, 13, 14, 15, 16, 17, 18, 19, 20,
      21, 22, 23, 24, 25, 26, 27, 28, 29, 30, 31}" by simp arith
  from j n show ?thesis by (elim insertE emptyE; simp)
qed

lemma calculateVLANSubnet_cidrText:
  "calculateVLANSubnet b v = cidrText 172 16 b ((v smod 8) * 32) 27"
  by (simp add: calculateVLANSubnet_def cidrText_def fmt_d_numerals Let_def)

lemma ParseCIDR_calculateVLANSubnet:
  assumes "0 \<le> v"
  shows "ParseCIDR (calculateVLANSubnet b v) =
     (if 0 \<le> b \<and> b \<le> 255
      then Some \<lparr>IP = [172, 16, of_int b, of_int ((v mod 8) * 32)], Mask = [255, 255, 255, 224]\<rparr>
      else None)"
proof -
  have sm: "v smod 8 = v mod 8" using assms by (simp add: smod_nonneg)
  have j: "0 \<le> v mod 8" "v mod 8 < 8" by simp_all
  have r: "0 \<le> (v mod 8) * 32" "(v mod 8) * 32 \<le> 255" using j by auto
  have a: "(word_of_int ((v mod 8) * 32) :: byte) AND 224 = word_of_int ((v mod 8) * 32)"
    using vlan_block [OF j, of 0] by simp
  show ?thesis
    unfolding calculateVLANSubnet_cidrText sm
    using r a by (simp add: ParseCIDR_cidrText CIDRMask_values IP_Mask_def byte_and_255)
qed

lemma Contains_vlan_block:
  assumes "0 \<le> v" "0 \<le> n" "n < 32"
  shows "Contains \<lparr>IP = [172, 16, b, of_int ((v mod 8) * 32)], Mask = [255, 255, 255, 224]\<rparr>
           [172, 16, b, of_int ((v mod 8) * 32) + of_int n]"
proof -
  have j: "0 \<le> v mod 8" "v mod 8 < 8" by simp_all
  show ?thesis
    using vlan_block [OF j assms(2,3)] vlan_block [OF j, of 0]
    by (simp add: Contains_def networkNumberAndMask_def To4_def)
qed

lemma saveState_no_fault:
  assumes "faults w = []"
  shows "fst (saveState js m w) = None" and "faults (snd (saveState js m w)) = []"
  using assms by (simp_all add: saveState_def Let_def)

lemma GetVLANForProject_default:
  assumes "vlanRangeStart mbm = 100" "vlanRangeEnd mbm = 4000"
  shows "GetVLANForProject mbm p = Inr (uint (fnv32a p) mod 3901 + 100)"
    and "GetVLANForProject_v2 mbm p = Inr (uint (fnv32a p) mod 3901 + 100)"
proof -
  have "uint (fnv32a p mod 3901) = uint (fnv32a p) mod 3901" by (simp add: uint_mod)
  then show "GetVLANForProject mbm p = Inr (uint (fnv32a p) mod 3901 + 100)"
    using assms by (simp add: GetVLANForProject_def)
  have "uint (fnv32a p) smod 3901 = uint (fnv32a p) mod 3901" by (rule smod_nonneg) simp_all
  then show "GetVLANForProject_v2 mbm p = Inr (uint (fnv32a p) mod 3901 + 100)"
    using assms by (simp add: GetVLANForProject_v2_def)
qed

lemma getOrCreateWorkspace_createdAt:
  "case getOrCreateWorkspace mbm w ta of
     Inl e \<Rightarrow> getOrCreateWorkspace mbm w tb = Inl e
   | Inr (a, m1) \<Rightarrow>
       (\<exists>a2 m2. getOrCreateWorkspace mbm w tb = Inr (a2, m2)
          \<and> BridgeNumber a2 = BridgeNumber a \<and> BridgeName a2 = BridgeName a
          \<and> ProjectVLANs a2 = ProjectVLANs a
          \<and> vlanRangeStart m2 = vlanRangeStart mbm \<and> vlanRangeEnd m2 = vlanRangeEnd mbm
          \<and> vlanRangeStart m1 = vlanRangeStart mbm \<and> vlanRangeEnd m1 = vlanRangeEnd mbm
          \<and> (case map_of (workspaces mbm) w of
                None \<Rightarrow> ProjectVLANs a = []
              | Some a' \<Rightarrow> a = a'))"
  by (auto simp: getOrCreateWorkspace_def Let_def split: option.splits sum.splits)

lemma GetOrCreate_related:
  assumes "vlanRangeStart mbm = 100" "vlanRangeEnd mbm = 4000" "faults wld = []"
    and "\<forall>a vl. map_of (workspaces mbm) w = Some a \<longrightarrow> map_of (ProjectVLANs a) p = Some vl \<longrightarrow> goodVLAN vl"
  shows "case GetOrCreateProjectVLAN mbm w p of
           (Inl e, m1) \<Rightarrow> isl (fst (GetOrCreateProjectVLAN_v2 js mbm wld w p))
         | (Inr (vl, ws), m1) \<Rightarrow>
             (\<exists>vl2 ws2 m2 w2. GetOrCreateProjectVLAN_v2 js mbm wld w p = (Inr (vl2, ws2), m2, w2)
                \<and> SubnetCIDR vl2 = SubnetCIDR vl \<and> NextVMIndex vl2 = NextVMIndex vl
                \<and> BridgeName ws2 = BridgeName ws \<and> faults w2 = [] \<and> goodVLAN vl
                \<and> (NextVMIndex vl = 0 \<or>
                     (\<exists>a. map_of (workspaces mbm) w = Some a \<and> map_of (ProjectVLANs a) p = Some vl)))"
proof (cases "getOrCreateWorkspace mbm w ''2025-08-13T22:00:00Z''")
  case (Inl e)
  with getOrCreateWorkspace_createdAt [where mbm = mbm and w = w and ta = "''2025-08-13T22:00:00Z''" and tb = "nowRFC3339 wld"]
  show ?thesis by (simp add: GetOrCreateProjectVLAN_def GetOrCreateProjectVLAN_v2_def)
next
  case (Inr r)
  obtain a m1 where r: "r = (a, m1)" by (cases r)
  from getOrCreateWorkspace_createdAt [where mbm = mbm and w = w and ta = "''2025-08-13T22:00:00Z''" and tb = "nowRFC3339 wld"] Inr r
  obtain a2 m2 where g2: "getOrCreateWorkspace mbm w (nowRFC3339 wld) = Inr (a2, m2)"
    and eq: "BridgeNumber a2 = BridgeNumber a" "BridgeName a2 = BridgeName a"
      "ProjectVLANs a2 = ProjectVLANs a"
    and rg: "vlanRangeStart m2 = 100" "vlanRangeEnd m2 = 4000"
      "vlanRangeStart m1 = 100" "vlanRangeEnd m1 = 4000"
    and st: "case map_of (workspaces mbm) w of None \<Rightarrow> ProjectVLANs a = [] | Some a' \<Rightarrow> a = a'"
    using assms(1,2) by auto
  show ?thesis
  proof (cases "map_of (ProjectVLANs a) p")
    case None
    have v0: "(0::int) \<le> uint (fnv32a p) mod 3901 + 100" by simp
    then have ex: "\<exists>b v. 0 \<le> v \<and>
        calculateVLANSubnet (BridgeNumber a) (uint (fnv32a p) mod 3901 + 100) = calculateVLANSubnet b v"
      by blast
    show ?thesis
      using Inr r g2 eq None assms(3) ex
      by (auto simp: GetOrCreateProjectVLAN_def GetOrCreateProjectVLAN_v2_def Let_def goodVLAN_def
          GetVLANForProject_default [OF rg(1,2)] GetVLANForProject_default [OF rg(3,4)]
          saveState_no_fault)
  next
    case (Some vl)
    then have "\<exists>a'. map_of (workspaces mbm) w = Some a' \<and> a = a'"
      using st by (auto split: option.splits)
    then show ?thesis
      using Inr r g2 eq Some assms(3,4)
      by (auto simp: GetOrCreateProjectVLAN_def GetOrCreateProjectVLAN_v2_def)
  qed
qed

lemma AllocateVMIP_tail:
  assumes "GetOrCreateProjectVLAN mbm w p = (Inr (vl, ws), m1)" and "goodVLAN vl"
  shows "fst (AllocateVMIP mbm w p) =
     (case ParseCIDR (SubnetCIDR vl) of
        None \<Rightarrow> Inl (Wrapf ''invalid VLAN subnet %s: %w'' [S (SubnetCIDR vl)]
                      (Errorf ''invalid CIDR address'' []))
      | Some net \<Rightarrow>
          if NextVMIndex vl > 28
          then Inl (Errorf ''project %s VLAN %s is full'' [S p, S (SubnetCIDR vl)])
          else Inr ((IP net)[3 := IP net ! 3 + of_int (2 + NextVMIndex vl)], BridgeName ws))"
proof -
  from assms(2) obtain b v where bv: "0 \<le> v" "SubnetCIDR vl = calculateVLANSubnet b v"
    and i0: "0 \<le> NextVMIndex vl" by (auto simp: goodVLAN_def)
  show ?thesis
  proof (cases "NextVMIndex vl > 28")
    case True
    then show ?thesis
      using assms(1) by (simp add: AllocateVMIP_def Let_def split: option.splits)
  next
    case False
    then have n: "0 \<le> 2 + NextVMIndex vl" "2 + NextVMIndex vl < 32" using i0 by auto
    show ?thesis
      using assms(1) False Contains_vlan_block [OF bv(1) n, of "word_of_int b"]
      by (simp add: AllocateVMIP_def Let_def bv(2) ParseCIDR_calculateVLANSubnet [OF bv(1)])
  qed
qed

lemma AllocateVMIP_v2_tail:
  assumes "GetOrCreateProjectVLAN_v2 js mbm wld w p = (Inr (vl, ws), m1, w1)" and "faults w1 = []"
    and "goodVLAN vl"
  shows "fst (AllocateVMIP_v2 js mbm wld w p) =
     (case ParseCIDR (SubnetCIDR vl) of
        None \<Rightarrow> Inl (Wrapf ''invalid VLAN subnet %s: %w'' [S (SubnetCIDR vl)]
                      (Errorf ''invalid CIDR address'' []))
      | Some net \<Rightarrow>
          if NextVMIndex vl \<ge> 28
          then Inl (Errorf ''project VLAN %s is full'' [S p])
          else Inr ((IP net)[3 := IP net ! 3 + of_int (NextVMIndex vl + 2)], BridgeName ws))"
proof -
  from assms(3) obtain b v where bv: "0 \<le> v" "SubnetCIDR vl = calculateVLANSubnet b v"
    by (auto simp: goodVLAN_def)
  obtain e w' where sv: "saveState js (setNextVMIndex w p (NextVMIndex vl + 1) m1) w1 = (e, w')"
    by (cases "saveState js (setNextVMIndex w p (NextVMIndex vl + 1) m1) w1")
  have "e = None"
    using saveState_no_fault(1) [OF assms(2), of js "setNextVMIndex w p (NextVMIndex vl + 1) m1"] sv
    by simp
  then show ?thesis
    using assms(1) sv
    by (simp add: AllocateVMIP_v2_def Let_def bv(2) ParseCIDR_calculateVLANSubnet [OF bv(1)])
qed

text \<open>
  C9, amended. Under a manager with the VLAN range of \<^verbatim>\<open>NewMultiBridgeManager\<close>, with no fault of
  persistence, and with a stored VLAN (if there is one) as the loader and the allocators leave
  it, the two \<^verbatim>\<open>AllocateVMIP\<close> return the same address and bridge name, or both fail, for every
  workspace, project and index other than 28.
\<close>

theorem AllocateVMIP_versions_agree:
  assumes "vlanRangeStart mbm = 100" and "vlanRangeEnd mbm = 4000" and "faults wld = []"
    and "\<forall>a vl. map_of (workspaces mbm) w = Some a \<longrightarrow> map_of (ProjectVLANs a) p = Some vl \<longrightarrow> goodVLAN vl"
    and "storedIndex mbm w p \<noteq> 28"
  shows "sameOutcome (fst (AllocateVMIP mbm w p)) (fst (AllocateVMIP_v2 js mbm wld w p))
         \<and> (\<not> isl (fst (AllocateVMIP mbm w p)) \<longrightarrow>
              fst (AllocateVMIP_v2 js mbm wld w p) = fst (AllocateVMIP mbm w p))"
proof (cases "GetOrCreateProjectVLAN mbm w p")
  case (Pair r m1)
  show ?thesis
  proof (cases r)
    case (Inl e)
    with Pair GetOrCreate_related [OF assms(1-4), where js = js]
    have "isl (fst (GetOrCreateProjectVLAN_v2 js mbm wld w p))" by simp
    then have "isl (fst (AllocateVMIP_v2 js mbm wld w p))"
      by (auto simp: AllocateVMIP_v2_def split: prod.splits sum.splits)
    moreover have "isl (fst (AllocateVMIP mbm w p))"
      using Pair Inl by (simp add: AllocateVMIP_def)
    ultimately show ?thesis by (auto simp: sameOutcome_def isl_def)
  next
    case (Inr x)
    obtain vl ws where x: "x = (vl, ws)" by (cases x)
    from Pair Inr x GetOrCreate_related [OF assms(1-4), where js = js]
    obtain vl2 ws2 m2 w2 where
      g2: "GetOrCreateProjectVLAN_v2 js mbm wld w p = (Inr (vl2, ws2), m2, w2)"
      and eq: "SubnetCIDR vl2 = SubnetCIDR vl" "NextVMIndex vl2 = NextVMIndex vl"
        "BridgeName ws2 = BridgeName ws"
      and f2: "faults w2 = []" and good: "goodVLAN vl"
      and idx: "NextVMIndex vl = 0 \<or>
        (\<exists>a. map_of (workspaces mbm) w = Some a \<and> map_of (ProjectVLANs a) p = Some vl)"
      by auto
    have good2: "goodVLAN vl2" using good eq by (simp add: goodVLAN_def)
    have n28: "NextVMIndex vl \<noteq> 28"
      using idx assms(5) by (auto simp: storedIndex_def)
    have g1: "GetOrCreateProjectVLAN mbm w p = (Inr (vl, ws), m1)" using Pair Inr x by simp
    show ?thesis
      unfolding AllocateVMIP_tail [OF g1 good] AllocateVMIP_v2_tail [OF g2 f2 good2]
      using n28 eq by (auto simp: sameOutcome_def add.commute split: option.splits)
  qed
qed

lemma vlan_text: "''172.16.3.192/27'' = calculateVLANSubnet 3 3334"
  by (simp add: calculateVLANSubnet_def signed_modulo_int_def fmt_d_def uitoa.simps decimalDigits_def)

lemma ParseCIDR_vlan_text:
  "ParseCIDR ''172.16.3.192/27'' = Some \<lparr>IP = [172, 16, 3, 192], Mask = [255, 255, 255, 224]\<rparr>"
  unfolding vlan_text by (simp add: ParseCIDR_calculateVLANSubnet)

lemmas vlan_eval =
  AllocateVMIP_def AllocateVMIP_v2_def GetOrCreateProjectVLAN_def GetOrCreateProjectVLAN_v2_def
  getOrCreateWorkspace_def mbmVlan_def mbm8_def ParseCIDR_vlan_text Contains_def
  networkNumberAndMask_def To4_def setNextVMIndex_def saveState_def world0_def nullCodec_def Let_def

text \<open>
  C9, as stated, fails at index 28: \<^verbatim>\<open>multibridge.go\<close> accepts it (\<open>2 + 28 > 30\<close> is false) and returns the
  address at offset 30, the split source rejects \<open>28 + 2 \<ge> 30\<close>.
\<close>

theorem AllocateVMIP_versions_differ_at_28:
  "fst (AllocateVMIP (mbmVlan 28) ''ws_A'' ''api'') = Inr ([172, 16, 3, 222], ''br-vms-3'')
   \<and> fst (AllocateVMIP_v2 nullCodec (mbmVlan 28) world0 ''ws_A'' ''api'') =
       Inl (Errorf ''project VLAN %s is full'' [S ''api''])
   \<and> \<not> sameOutcome (fst (AllocateVMIP (mbmVlan 28) ''ws_A'' ''api''))
          (fst (AllocateVMIP_v2 nullCodec (mbmVlan 28) world0 ''ws_A'' ''api''))"
  by (simp add: vlan_eval sameOutcome_def)

theorem AllocateVMIP_versions_agree_witness:
  "vlanRangeStart (mbmVlan 27) = 100 \<and> vlanRangeEnd (mbmVlan 27) = 4000 \<and> faults world0 = []
   \<and> storedIndex (mbmVlan 27) ''ws_A'' ''api'' = 27
   \<and> fst (AllocateVMIP (mbmVlan 27) ''ws_A'' ''api'') = Inr ([172, 16, 3, 221], ''br-vms-3'')
   \<and> fst (AllocateVMIP_v2 nullCodec (mbmVlan 27) world0 ''ws_A'' ''api'') =
       Inr ([172, 16, 3, 221], ''br-vms-3'')"
proof -
  have h1: "vlanRangeStart (mbmVlan 27) = 100" and h2: "vlanRangeEnd (mbmVlan 27) = 4000"
    by (simp_all add: mbmVlan_def mbm8_def)
  have h3: "faults world0 = []" by (simp add: world0_def)
  have "goodVLAN \<lparr>ProjectID = ''api'', VLANNumber = 3334, SubnetCIDR = ''172.16.3.192/27'',
                   NextVMIndex = 27, CreatedAt = ''2025-08-13T22:00:00Z''\<rparr>"
    unfolding goodVLAN_def using vlan_text by (intro conjI exI [of _ 3] exI [of _ 3334]) simp_all
  then have h4: "\<forall>a vl. map_of (workspaces (mbmVlan 27)) ''ws_A'' = Some a \<longrightarrow>
      map_of (ProjectVLANs a) ''api'' = Some vl \<longrightarrow> goodVLAN vl"
    by (auto simp: mbmVlan_def)
  have h5: "storedIndex (mbmVlan 27) ''ws_A'' ''api'' = 27" by (simp add: storedIndex_def mbmVlan_def)
  have h5': "storedIndex (mbmVlan 27) ''ws_A'' ''api'' \<noteq> 28" using h5 by simp
  have v1: "fst (AllocateVMIP (mbmVlan 27) ''ws_A'' ''api'') = Inr ([172, 16, 3, 221], ''br-vms-3'')"
    by (simp add: vlan_eval)
  from AllocateVMIP_versions_agree [OF h1 h2 h3 h4 h5', where js = nullCodec]
  show ?thesis using h1 h2 h3 h5 v1 by (simp add: isl_def)
qed

subsection \<open>The checksum of the state file\<close>

lemma stateForHashing_eq:
  "\<lparr>Workspaces = Workspaces d, BridgeUsage = BridgeUsage d, LastSaved = LastSaved d,
    Checksum = ''''\<rparr> = d\<lparr>Checksum := ''''\<rparr>"
  by (cases d) simp

lemma calculateStateChecksum_alt:
  "calculateStateChecksum js d = hexString (Sum256 js (Marshal js (d\<lparr>Checksum := ''''\<rparr>)))"
  by (simp add: calculateStateChecksum_def Let_def stateForHashing_eq)

lemma calculateStateChecksum_ignores_checksum:
  "calculateStateChecksum js (d\<lparr>Checksum := c\<rparr>) = calculateStateChecksum js d"
  by (simp add: calculateStateChecksum_def Let_def)

lemma saveState_written:
  assumes "saveState js mbm w = (None, w')"
  shows "files w' (statePath mbm) =
           Some (MarshalIndent js
             \<lparr>Workspaces = workspaces mbm, BridgeUsage = bridgeUsage mbm, LastSaved = now w,
              Checksum = calculateStateChecksum js
                \<lparr>Workspaces = workspaces mbm, BridgeUsage = bridgeUsage mbm, LastSaved = now w,
                 Checksum = ''''\<rparr>\<rparr>)"
  using assms by (auto simp: saveState_def Let_def split: if_splits)

lemma verifyStateChecksum_None:
  "verifyStateChecksum js d = None \<longleftrightarrow> Checksum d = '''' \<or> Checksum d = calculateStateChecksum js d"
  by (simp add: verifyStateChecksum_def Let_def)

lemma loadState_after_checksum:
  assumes "files w (statePath m) = Some data" "\<not> readFails w" "Unmarshal js data = Some d"
    "verifyStateChecksum js d = None"
  shows "fst (loadState js m w) = map_option (Wrapf ''corrupted state file: %w'' []) (validateState js m d)"
  using assms by (simp add: loadState_def split: option.splits)

lemma loadState_mismatch:
  assumes "files w (statePath m) = Some data" "Unmarshal js data = Some d"
    "Checksum d \<noteq> ''''" "Checksum d \<noteq> calculateStateChecksum js d"
  shows "\<exists>e. loadState js m w = (Some e, m)"
  using assms by (simp add: loadState_def verifyStateChecksum_def Let_def)

lemma loadState_missing: "files w (statePath m) = None \<Longrightarrow> loadState js m w = (None, m)"
  by (simp add: loadState_def)

text \<open>
  C4. A successful \<^verbatim>\<open>saveState\<close> leaves at the state path the encoding of a document that holds
  the manager's two maps, the time of saving, and as checksum the hexadecimal SHA-256 of the
  JSON of that document with the checksum field empty. When decoding gives the document back
  (the round trip of \<^verbatim>\<open>encoding/json\<close>), \<^verbatim>\<open>verifyStateChecksum\<close> accepts it, and the result of any
  \<^verbatim>\<open>loadState\<close> that reads this file is decided by the validation of the state alone.
  Conversely a file whose decoded checksum is not empty and differs from that SHA-256 makes
  \<^verbatim>\<open>loadState\<close> fail and leave the manager as it was; a missing file is no error and changes
  nothing; an empty checksum passes the verification.
\<close>

theorem saveState_loadState_checksum:
  "(saveState js mbm w = (None, w') \<longrightarrow>
      (\<exists>d. files w' (statePath mbm) = Some (MarshalIndent js d)
         \<and> Workspaces d = workspaces mbm \<and> BridgeUsage d = bridgeUsage mbm \<and> LastSaved d = now w
         \<and> Checksum d = hexString (Sum256 js (Marshal js (d\<lparr>Checksum := ''''\<rparr>)))
         \<and> (Unmarshal js (MarshalIndent js d) = Some d \<longrightarrow>
              verifyStateChecksum js d = None
              \<and> (\<forall>m2 w2. files w2 (statePath m2) = Some (MarshalIndent js d) \<longrightarrow> \<not> readFails w2 \<longrightarrow>
                    fst (loadState js m2 w2) =
                      map_option (Wrapf ''corrupted state file: %w'' []) (validateState js m2 d)))))
   \<and> (files w (statePath mbm) = Some data \<longrightarrow> Unmarshal js data = Some d' \<longrightarrow> Checksum d' \<noteq> '''' \<longrightarrow>
        Checksum d' \<noteq> hexString (Sum256 js (Marshal js (d'\<lparr>Checksum := ''''\<rparr>))) \<longrightarrow>
        (\<exists>e. loadState js mbm w = (Some e, mbm)))
   \<and> (files w (statePath mbm) = None \<longrightarrow> loadState js mbm w = (None, mbm))
   \<and> (Checksum d' = '''' \<longrightarrow> verifyStateChecksum js d' = None)"
proof (intro conjI impI)
  assume s: "saveState js mbm w = (None, w')"
  let ?st = "\<lparr>Workspaces = workspaces mbm, BridgeUsage = bridgeUsage mbm, LastSaved = now w,
              Checksum = ''''\<rparr>"
  let ?d = "?st\<lparr>Checksum := calculateStateChecksum js ?st\<rparr>"
  have f: "files w' (statePath mbm) = Some (MarshalIndent js ?d)"
    using saveState_written [OF s] by simp
  have c: "Checksum ?d = hexString (Sum256 js (Marshal js (?d\<lparr>Checksum := ''''\<rparr>)))"
    by (simp add: calculateStateChecksum_def)
  have v: "verifyStateChecksum js ?d = None"
    by (simp add: verifyStateChecksum_None calculateStateChecksum_def)
  have l: "Unmarshal js (MarshalIndent js ?d) = Some ?d \<longrightarrow>
              verifyStateChecksum js ?d = None
              \<and> (\<forall>m2 w2. files w2 (statePath m2) = Some (MarshalIndent js ?d) \<longrightarrow> \<not> readFails w2 \<longrightarrow>
                    fst (loadState js m2 w2) =
                      map_option (Wrapf ''corrupted state file: %w'' []) (validateState js m2 ?d))"
    using v loadState_after_checksum by blast
  show "\<exists>d. files w' (statePath mbm) = Some (MarshalIndent js d)
         \<and> Workspaces d = workspaces mbm \<and> BridgeUsage d = bridgeUsage mbm \<and> LastSaved d = now w
         \<and> Checksum d = hexString (Sum256 js (Marshal js (d\<lparr>Checksum := ''''\<rparr>)))
         \<and> (Unmarshal js (MarshalIndent js d) = Some d \<longrightarrow>
              verifyStateChecksum js d = None
              \<and> (\<forall>m2 w2. files w2 (statePath m2) = Some (MarshalIndent js d) \<longrightarrow> \<not> readFails w2 \<longrightarrow>
                    fst (loadState js m2 w2) =
                      map_option (Wrapf ''corrupted state file: %w'' []) (validateState js m2 d)))"
    by (rule exI [of _ ?d]) (use f c l in simp)
next
  assume "files w (statePath mbm) = Some data" "Unmarshal js data = Some d'" "Checksum d' \<noteq> ''''"
    "Checksum d' \<noteq> hexString (Sum256 js (Marshal js (d'\<lparr>Checksum := ''''\<rparr>)))"
  then show "\<exists>e. loadState js mbm w = (Some e, mbm)"
    using loadState_mismatch [of w mbm data js d'] by (simp add: calculateStateChecksum_alt)
next
  assume "files w (statePath mbm) = None"
  then show "loadState js mbm w = (None, mbm)" by (rule loadState_missing)
next
  assume "Checksum d' = ''''"
  then show "verifyStateChecksum js d' = None" by (simp add: verifyStateChecksum_None)
qed

lemma hex_ab: "hexString [171] = ''ab''"
  by (simp add: hexString_def lowerHexDigits_def)

lemma validateState_savedDoc: "validateState exampleCodec mbm8 (savedDoc c) = None"
  by (simp add: validateState_def validateWorkspace_def validateBridgeUsage_def savedDoc_def
      mbmLive_def mbm8_def bridgeNameFor_def fmt_d_def uitoa.simps decimalDigits_def
      exampleCodec_def expectedUsageOf_def markBridgeUsage_def mapLen_def mapGetBool_def Let_def)

theorem saveState_loadState_checksum_witness:
  "fst (saveState exampleCodec mbmLive world0) = None
   \<and> files (snd (saveState exampleCodec mbmLive world0)) (statePath mbmLive) = Some [1]
   \<and> Unmarshal exampleCodec [1] = Some (savedDoc ''ab'')
   \<and> Checksum (savedDoc ''ab'') = hexString (Sum256 exampleCodec (Marshal exampleCodec (savedDoc '''')))
   \<and> fst (loadState exampleCodec mbm8 (worldWith [1])) = None
   \<and> Unmarshal exampleCodec [2] = Some (savedDoc ''ff'')
   \<and> fst (loadState exampleCodec mbm8 (worldWith [2])) \<noteq> None
   \<and> loadState exampleCodec mbm8 world0 = (None, mbm8)
   \<and> verifyStateChecksum exampleCodec (savedDoc '''') = None"
proof -
  let ?w' = "snd (saveState exampleCodec mbmLive world0)"
  have fs: "fst (saveState exampleCodec mbmLive world0) = None"
    by (simp add: saveState_def world0_def Let_def)
  then have s: "saveState exampleCodec mbmLive world0 = (None, ?w')"
    by (simp add: prod_eq_iff)
  have f: "files ?w' (statePath mbmLive) = Some [1]"
    by (simp add: saveState_def world0_def Let_def exampleCodec_def calculateStateChecksum_def hex_ab)
  have p: "statePath mbm8 = statePath mbmLive" by (simp add: mbmLive_def)
  have u1: "Unmarshal exampleCodec [1] = Some (savedDoc ''ab'')"
    and u2: "Unmarshal exampleCodec [2] = Some (savedDoc ''ff'')"
    and mi: "MarshalIndent exampleCodec (savedDoc ''ab'') = [1]"
    by (simp_all add: exampleCodec_def savedDoc_def)
  have c: "Checksum (savedDoc ''ab'') =
      hexString (Sum256 exampleCodec (Marshal exampleCodec (savedDoc '''')))"
    by (simp add: exampleCodec_def savedDoc_def hex_ab)
  have f2: "files (worldWith [2]) (statePath mbm8) = Some [2]"
    and f1: "files (worldWith [1]) (statePath mbm8) = Some [1]"
    and r1: "\<not> readFails (worldWith [1])"
    and f0: "files world0 (statePath mbm8) = None"
    by (simp_all add: worldWith_def world0_def)
  have ne: "Checksum (savedDoc ''ff'') \<noteq> ''''"
    and ne2: "Checksum (savedDoc ''ff'') \<noteq>
        hexString (Sum256 exampleCodec (Marshal exampleCodec ((savedDoc ''ff'')\<lparr>Checksum := ''''\<rparr>)))"
    by (simp_all add: savedDoc_def exampleCodec_def hex_ab)
  note t = saveState_loadState_checksum [of exampleCodec mbmLive world0 ?w']
  from t [of "[2]" "savedDoc ''ff''"] s obtain d where
    d: "files ?w' (statePath mbmLive) = Some (MarshalIndent exampleCodec d)"
      "Workspaces d = workspaces mbmLive" "BridgeUsage d = bridgeUsage mbmLive"
      "LastSaved d = now world0"
      "Checksum d = hexString (Sum256 exampleCodec (Marshal exampleCodec (d\<lparr>Checksum := ''''\<rparr>)))"
    and l: "Unmarshal exampleCodec (MarshalIndent exampleCodec d) = Some d \<longrightarrow>
        (\<forall>m2 w2. files w2 (statePath m2) = Some (MarshalIndent exampleCodec d) \<longrightarrow> \<not> readFails w2 \<longrightarrow>
           fst (loadState exampleCodec m2 w2) =
             map_option (Wrapf ''corrupted state file: %w'' []) (validateState exampleCodec m2 d))"
    by auto
  have "d = savedDoc ''ab''"
    using d(2-5) by (cases d) (simp add: savedDoc_def exampleCodec_def hex_ab world0_def)
  with l u1 mi f1 r1 have ok: "fst (loadState exampleCodec mbm8 (worldWith [1])) = None"
    by (simp add: validateState_savedDoc)
  from saveState_loadState_checksum [of exampleCodec mbm8 "worldWith [2]" "worldWith [2]" "[2]" "savedDoc ''ff''"]
    f2 u2 ne ne2
  have bad: "fst (loadState exampleCodec mbm8 (worldWith [2])) \<noteq> None" by auto
  from saveState_loadState_checksum [of exampleCodec mbm8 world0 world0 "[]" "savedDoc ''''"] f0
  have miss: "loadState exampleCodec mbm8 world0 = (None, mbm8)"
    and emp: "verifyStateChecksum exampleCodec (savedDoc '''') = None"
    by (simp_all add: savedDoc_def)
  show ?thesis using fs f u1 c ok u2 bad miss emp by simp
qed

subsection \<open>Repair of a loaded state\<close>

lemma repairWorkspace_eq:
  "repairWorkspace (k, a) (r, m) =
     (if badBridge m a then (True, m\<lparr>workspaces := AList.delete k (workspaces m)\<rparr>)
      else (r \<or> VMCount a > 5 \<or> BridgeName a \<noteq> bridgeNameFor m (BridgeNumber a),
            m\<lparr>workspaces := AList.update k (repairedAllocation m a) (workspaces m),
              bridgeUsage := markBridgeUsage (BridgeNumber a) k (bridgeUsage m)\<rparr>))"
  by (cases a) (auto simp: repairWorkspace_def badBridge_def repairedAllocation_def Let_def bridgeNameFor_def)

lemma usageEntry_mark:
  "usageEntry (markBridgeUsage b k u) b' k' =
     (if b' = b \<and> k' = k then Some True else usageEntry u b' k')"
  by (auto simp: usageEntry_def markBridgeUsage_def update_conv' split: option.splits)

lemma distinct_mark: "distinct (map fst u) \<Longrightarrow> distinct (map fst (markBridgeUsage b k u))"
  by (simp add: markBridgeUsage_def distinct_update)

lemma repairedAllocation_simps:
  "BridgeNumber (repairedAllocation m a) = BridgeNumber a"
  "VMCount (repairedAllocation m a) \<le> 5"
  "VMCount (repairedAllocation m a) = (if VMCount a > 5 then 0 else VMCount a)"
  "BridgeName (repairedAllocation m a) = bridgeNameFor m (BridgeNumber a)"
  "WorkspaceID (repairedAllocation m a) = WorkspaceID a"
  "ProjectVLANs (repairedAllocation m a) = ProjectVLANs a"
  by (simp_all add: repairedAllocation_def)

lemma bridgeNameFor_cong: "bridgePrefix m' = bridgePrefix m \<Longrightarrow> bridgeNameFor m' = bridgeNameFor m"
  by (simp add: bridgeNameFor_def fun_eq_iff)

lemma loop1:
  assumes "distinct (map fst xs)"
  shows "\<exists>r' m'. fold repairWorkspace xs (r, m) = (r', m')
     \<and> bridgeCount m' = bridgeCount m \<and> bridgePrefix m' = bridgePrefix m
     \<and> (distinct (map fst (workspaces m)) \<longrightarrow> distinct (map fst (workspaces m')))
     \<and> (distinct (map fst (bridgeUsage m)) \<longrightarrow> distinct (map fst (bridgeUsage m')))
     \<and> (\<forall>k. map_of (workspaces m') k =
              (case map_of xs k of
                 None \<Rightarrow> map_of (workspaces m) k
               | Some a \<Rightarrow> if badBridge m a then None else Some (repairedAllocation m a)))
     \<and> (\<forall>b k. usageEntry (bridgeUsage m') b k =
              (if \<exists>a. map_of xs k = Some a \<and> \<not> badBridge m a \<and> BridgeNumber a = b then Some True
               else usageEntry (bridgeUsage m) b k))"
  using assms
proof (induction xs arbitrary: r m)
  case Nil
  then show ?case by simp
next
  case (Cons x xs)
  obtain k a where x: "x = (k, a)" by (cases x)
  obtain r1 m1 where s: "repairWorkspace (k, a) (r, m) = (r1, m1)" by (cases "repairWorkspace (k, a) (r, m)")
  from Cons.prems x have d: "distinct (map fst xs)" and kn: "k \<notin> fst ` set xs" by auto
  then have kx: "map_of xs k = None" by (simp add: map_of_eq_None_iff)
  have m1: "bridgeCount m1 = bridgeCount m" "bridgePrefix m1 = bridgePrefix m"
    "map_of (workspaces m1) = (map_of (workspaces m))(k := if badBridge m a then None else Some (repairedAllocation m a))"
    "\<And>b k'. usageEntry (bridgeUsage m1) b k' =
       (if \<not> badBridge m a \<and> BridgeNumber a = b \<and> k' = k then Some True else usageEntry (bridgeUsage m) b k')"
    "distinct (map fst (workspaces m)) \<longrightarrow> distinct (map fst (workspaces m1))"
    "distinct (map fst (bridgeUsage m)) \<longrightarrow> distinct (map fst (bridgeUsage m1))"
    using s by (auto simp: repairWorkspace_eq update_conv' delete_conv' usageEntry_mark distinct_update
        distinct_delete distinct_mark split: if_splits)
  have bb: "badBridge m1 = badBridge m" using m1(1) by (simp add: badBridge_def fun_eq_iff)
  have ra: "repairedAllocation m1 = repairedAllocation m"
    using bridgeNameFor_cong [OF m1(2)] by (simp add: repairedAllocation_def fun_eq_iff)
  from Cons.IH [OF d, of r1 m1] obtain r' m' where
    f: "fold repairWorkspace xs (r1, m1) = (r', m')"
    and p: "bridgeCount m' = bridgeCount m1" "bridgePrefix m' = bridgePrefix m1"
      "distinct (map fst (workspaces m1)) \<longrightarrow> distinct (map fst (workspaces m'))"
      "distinct (map fst (bridgeUsage m1)) \<longrightarrow> distinct (map fst (bridgeUsage m'))"
      "\<forall>k. map_of (workspaces m') k =
              (case map_of xs k of
                 None \<Rightarrow> map_of (workspaces m1) k
               | Some a \<Rightarrow> if badBridge m1 a then None else Some (repairedAllocation m1 a))"
      "\<forall>b k. usageEntry (bridgeUsage m') b k =
              (if \<exists>a. map_of xs k = Some a \<and> \<not> badBridge m1 a \<and> BridgeNumber a = b then Some True
               else usageEntry (bridgeUsage m1) b k)"
    by blast
  have "fold repairWorkspace (x # xs) (r, m) = (r', m')" using x s f by simp
  moreover have "\<forall>k'. map_of (workspaces m') k' =
              (case map_of (x # xs) k' of
                 None \<Rightarrow> map_of (workspaces m) k'
               | Some a \<Rightarrow> if badBridge m a then None else Some (repairedAllocation m a))"
    using p(5) m1(3) kx x by (auto simp: bb ra split: option.splits)
  moreover have "\<forall>b k'. usageEntry (bridgeUsage m') b k' =
              (if \<exists>a. map_of (x # xs) k' = Some a \<and> \<not> badBridge m a \<and> BridgeNumber a = b then Some True
               else usageEntry (bridgeUsage m) b k')"
    using p(6) m1(4) kx x by (auto simp: bb)
  ultimately show ?case using p(1-4) m1(1,2,5,6) by auto
qed

lemma pruneWorkspaceMap_fold:
  "fold (\<lambda>(workspaceID, _) (repaired, wm).
           if map_of wss workspaceID = None then (True, AList.delete workspaceID wm) else (repaired, wm))
     xs (r, wm)
   = (r \<or> (\<exists>k \<in> fst ` set xs. map_of wss k = None),
      filter (\<lambda>(k, _). \<not> (k \<in> fst ` set xs \<and> map_of wss k = None)) wm)"
proof (induction xs arbitrary: r wm)
  case Nil
  then show ?case by simp
next
  case (Cons x xs)
  obtain k v where x: "x = (k, v)" by (cases x)
  have "filter (\<lambda>(k', _). \<not> (k' \<in> fst ` set xs \<and> map_of wss k' = None)) (AList.delete k wm)
      = filter (\<lambda>(k', _). \<not> ((k' = k \<or> k' \<in> fst ` set xs) \<and> map_of wss k' = None)) wm"
    if "map_of wss k = None"
    using that by (induction wm) (auto simp: AList.delete_eq)
  moreover have "filter (\<lambda>(k', _). \<not> (k' \<in> fst ` set xs \<and> map_of wss k' = None)) wm
      = filter (\<lambda>(k', _). \<not> ((k' = k \<or> k' \<in> fst ` set xs) \<and> map_of wss k' = None)) wm"
    if "map_of wss k \<noteq> None"
    using that by (induction wm) auto
  ultimately show ?case using x by (auto simp: Cons.IH)
qed

lemma pruneWorkspaceMap_eq:
  "pruneWorkspaceMap wss wmap =
     (\<exists>k \<in> fst ` set wmap. map_of wss k = None, filter (\<lambda>(k, _). map_of wss k \<noteq> None) wmap)"
proof -
  have "filter (\<lambda>(k, _). \<not> (k \<in> fst ` set wmap \<and> map_of wss k = None)) wmap
      = filter (\<lambda>(k, _). map_of wss k \<noteq> None) wmap"
    by (rule filter_cong) (auto simp: image_iff)
  then show ?thesis by (simp add: pruneWorkspaceMap_def pruneWorkspaceMap_fold)
qed

lemma map_of_filter_keys:
  "map_of (filter (\<lambda>(k, _). P k) xs) k = (if P k then map_of xs k else None)"
  by (induction xs) auto

lemma filter_keys_Nil:
  "filter (\<lambda>(k, _). P k) xs = [] \<Longrightarrow> P k \<Longrightarrow> map_of xs k = None"
  by (induction xs) (auto split: if_splits)

lemma pruneBridge_eq:
  "pruneBridge (b, wmap) (r, m) =
     (r \<or> (\<exists>k \<in> fst ` set wmap. map_of (workspaces m) k = None),
      m\<lparr>bridgeUsage :=
          (if filter (\<lambda>(k, _). map_of (workspaces m) k \<noteq> None) wmap = []
           then AList.delete b (bridgeUsage m)
           else AList.update b (filter (\<lambda>(k, _). map_of (workspaces m) k \<noteq> None) wmap) (bridgeUsage m))\<rparr>)"
  by (simp add: pruneBridge_def pruneWorkspaceMap_eq)

lemma loop2:
  assumes "distinct (map fst xs)"
  shows "\<exists>r' m'. fold pruneBridge xs (r, m) = (r', m')
     \<and> bridgeCount m' = bridgeCount m \<and> bridgePrefix m' = bridgePrefix m
     \<and> workspaces m' = workspaces m
     \<and> (\<forall>b. map_of (bridgeUsage m') b =
              (case map_of xs b of
                 None \<Rightarrow> map_of (bridgeUsage m) b
               | Some wmap \<Rightarrow>
                   if filter (\<lambda>(k, _). map_of (workspaces m) k \<noteq> None) wmap = [] then None
                   else Some (filter (\<lambda>(k, _). map_of (workspaces m) k \<noteq> None) wmap)))"
  using assms
proof (induction xs arbitrary: r m)
  case Nil
  then show ?case by simp
next
  case (Cons x xs)
  obtain b wmap where x: "x = (b, wmap)" by (cases x)
  obtain r1 m1 where s: "pruneBridge (b, wmap) (r, m) = (r1, m1)" by (cases "pruneBridge (b, wmap) (r, m)")
  from Cons.prems x have d: "distinct (map fst xs)" and kn: "b \<notin> fst ` set xs" by auto
  then have kx: "map_of xs b = None" by (simp add: map_of_eq_None_iff)
  have m1: "bridgeCount m1 = bridgeCount m" "bridgePrefix m1 = bridgePrefix m"
    "workspaces m1 = workspaces m"
    "map_of (bridgeUsage m1) = (map_of (bridgeUsage m))(b :=
        if filter (\<lambda>(k, _). map_of (workspaces m) k \<noteq> None) wmap = [] then None
        else Some (filter (\<lambda>(k, _). map_of (workspaces m) k \<noteq> None) wmap))"
    using s by (auto simp: pruneBridge_eq update_conv' delete_conv' split: if_splits)
  from Cons.IH [OF d, of r1 m1] obtain r' m' where
    f: "fold pruneBridge xs (r1, m1) = (r', m')"
    and p: "bridgeCount m' = bridgeCount m1" "bridgePrefix m' = bridgePrefix m1"
      "workspaces m' = workspaces m1"
      "\<forall>b. map_of (bridgeUsage m') b =
              (case map_of xs b of
                 None \<Rightarrow> map_of (bridgeUsage m1) b
               | Some wmap \<Rightarrow>
                   if filter (\<lambda>(k, _). map_of (workspaces m1) k \<noteq> None) wmap = [] then None
                   else Some (filter (\<lambda>(k, _). map_of (workspaces m1) k \<noteq> None) wmap))"
    by blast
  have "fold pruneBridge (x # xs) (r, m) = (r', m')" using x s f by simp
  moreover have "\<forall>b'. map_of (bridgeUsage m') b' =
              (case map_of (x # xs) b' of
                 None \<Rightarrow> map_of (bridgeUsage m) b'
               | Some wmap \<Rightarrow>
                   if filter (\<lambda>(k, _). map_of (workspaces m) k \<noteq> None) wmap = [] then None
                   else Some (filter (\<lambda>(k, _). map_of (workspaces m) k \<noteq> None) wmap))"
    using p(4) m1(3,4) kx x by (auto split: option.splits)
  ultimately show ?case using p(1-3) m1(1-3) by auto
qed

lemma loop2_self:
  assumes "distinct (map fst (bridgeUsage m))"
  shows "\<exists>r' m'. fold pruneBridge (bridgeUsage m) (r, m) = (r', m')
     \<and> bridgeCount m' = bridgeCount m \<and> bridgePrefix m' = bridgePrefix m
     \<and> workspaces m' = workspaces m
     \<and> (\<forall>b wm. map_of (bridgeUsage m') b = Some wm \<longrightarrow> wm \<noteq> [])
     \<and> (\<forall>b k. usageEntry (bridgeUsage m') b k =
              (if map_of (workspaces m) k = None then None else usageEntry (bridgeUsage m) b k))"
proof -
  from loop2 [OF assms, of r m] obtain r' m' where
    f: "fold pruneBridge (bridgeUsage m) (r, m) = (r', m')"
    and p: "bridgeCount m' = bridgeCount m" "bridgePrefix m' = bridgePrefix m"
      "workspaces m' = workspaces m"
      "\<forall>b. map_of (bridgeUsage m') b =
              (case map_of (bridgeUsage m) b of
                 None \<Rightarrow> map_of (bridgeUsage m) b
               | Some wmap \<Rightarrow>
                   if filter (\<lambda>(k, _). map_of (workspaces m) k \<noteq> None) wmap = [] then None
                   else Some (filter (\<lambda>(k, _). map_of (workspaces m) k \<noteq> None) wmap))"
    by blast
  have a: "\<forall>b wm. map_of (bridgeUsage m') b = Some wm \<longrightarrow> wm \<noteq> []"
    using p(4) by (auto split: option.splits if_splits)
  have b: "usageEntry (bridgeUsage m') b k =
              (if map_of (workspaces m) k = None then None else usageEntry (bridgeUsage m) b k)" for b k
  proof (cases "map_of (bridgeUsage m) b")
    case None
    then show ?thesis using p(4) by (simp add: usageEntry_def)
  next
    case (Some wmap)
    show ?thesis
    proof (cases "filter (\<lambda>(k, _). map_of (workspaces m) k \<noteq> None) wmap = []")
      case True
      then have "map_of (bridgeUsage m') b = None" using p(4) Some by simp
      moreover have "map_of (workspaces m) k \<noteq> None \<Longrightarrow> map_of wmap k = None"
        using filter_keys_Nil [OF True] by simp
      ultimately show ?thesis using Some by (auto simp: usageEntry_def)
    next
      case False
      then have "map_of (bridgeUsage m') b = Some (filter (\<lambda>(k, _). map_of (workspaces m) k \<noteq> None) wmap)"
        using p(4) Some by simp
      then show ?thesis using Some by (simp add: usageEntry_def map_of_filter_keys)
    qed
  qed
  show ?thesis using f p(1-3) a b by auto
qed

lemma validateAndRepairState_split:
  assumes dw: "distinct (map fst (workspaces mbm))" and du: "distinct (map fst (bridgeUsage mbm))"
  shows "\<exists>repaired mbm' w'. validateAndRepairState js mbm w = (repaired, mbm', w')
     \<and> bridgeCount mbm' = bridgeCount mbm \<and> bridgePrefix mbm' = bridgePrefix mbm
     \<and> (\<forall>k. map_of (workspaces mbm') k =
              (case map_of (workspaces mbm) k of
                 None \<Rightarrow> None
               | Some a \<Rightarrow> if badBridge mbm a then None else Some (repairedAllocation mbm a)))
     \<and> (\<forall>b wm. map_of (bridgeUsage mbm') b = Some wm \<longrightarrow> wm \<noteq> [])
     \<and> (\<forall>b k. usageEntry (bridgeUsage mbm') b k =
              (case map_of (workspaces mbm') k of
                 None \<Rightarrow> None
               | Some a \<Rightarrow> if BridgeNumber a = b then Some True else usageEntry (bridgeUsage mbm) b k))"
proof -
  from loop1 [OF dw, of False mbm] obtain r1 m1 where
    f1: "fold repairWorkspace (workspaces mbm) (False, mbm) = (r1, m1)"
    and p1: "bridgeCount m1 = bridgeCount mbm" "bridgePrefix m1 = bridgePrefix mbm"
      "distinct (map fst (bridgeUsage mbm)) \<longrightarrow> distinct (map fst (bridgeUsage m1))"
      "\<forall>k. map_of (workspaces m1) k =
              (case map_of (workspaces mbm) k of
                 None \<Rightarrow> map_of (workspaces mbm) k
               | Some a \<Rightarrow> if badBridge mbm a then None else Some (repairedAllocation mbm a))"
      "\<forall>b k. usageEntry (bridgeUsage m1) b k =
              (if \<exists>a. map_of (workspaces mbm) k = Some a \<and> \<not> badBridge mbm a \<and> BridgeNumber a = b
               then Some True else usageEntry (bridgeUsage mbm) b k)"
    by blast
  from p1(3) du have d1: "distinct (map fst (bridgeUsage m1))" by simp
  from loop2_self [OF d1, of r1] obtain r2 m2 where
    f2: "fold pruneBridge (bridgeUsage m1) (r1, m1) = (r2, m2)"
    and p2: "bridgeCount m2 = bridgeCount m1" "bridgePrefix m2 = bridgePrefix m1"
      "workspaces m2 = workspaces m1"
      "\<forall>b wm. map_of (bridgeUsage m2) b = Some wm \<longrightarrow> wm \<noteq> []"
      "\<forall>b k. usageEntry (bridgeUsage m2) b k =
              (if map_of (workspaces m1) k = None then None else usageEntry (bridgeUsage m1) b k)"
    by blast
  have v: "validateAndRepairState js mbm w =
      (r2, m2, if r2 then snd (saveState js m2 w) else w)"
    by (simp add: validateAndRepairState_def f1 f2)
  have ws: "\<forall>k. map_of (workspaces m2) k =
              (case map_of (workspaces mbm) k of
                 None \<Rightarrow> None
               | Some a \<Rightarrow> if badBridge mbm a then None else Some (repairedAllocation mbm a))"
    using p1(4) p2(3) by (auto split: option.splits)
  have us: "usageEntry (bridgeUsage m2) b k =
              (case map_of (workspaces m2) k of
                 None \<Rightarrow> None
               | Some a \<Rightarrow> if BridgeNumber a = b then Some True else usageEntry (bridgeUsage mbm) b k)" for b k
  proof (cases "map_of (workspaces mbm) k")
    case None
    then show ?thesis using p1(4) p2(3,5) by simp
  next
    case (Some a)
    then show ?thesis using p1(4,5) p2(3,5)
      by (auto simp: repairedAllocation_simps split: option.splits)
  qed
  show ?thesis using v p1(1,2) p2(1,2,4) ws us by auto
qed

text \<open>
  Claim C5. Let the workspace map and the bridge-usage map have one entry per key, as Go maps
  do. After \<^verbatim>\<open>validateAndRepairState\<close>, a workspace whose bridge number was outside \<open>[0, N)\<close> is
  gone, and every other workspace is kept with its \<^verbatim>\<open>VMCount\<close> reset to 0 when it was above 5 and
  its bridge name rewritten to \<^verbatim>\<open><prefix>-<index>\<close>. Hence every remaining workspace has a
  bridge number in \<open>[0, N)\<close>, at most five VMs, the bridge name of its bridge number, and is
  marked in the usage map under its own bridge. The workspaces named in the usage map are
  exactly the remaining ones, no bridge keeps an empty map, and an entry of a remaining
  workspace under a bridge that is not its own is left as it was.
\<close>

theorem validateAndRepairState_postconditions:
  assumes "distinct (map fst (workspaces mbm))" and "distinct (map fst (bridgeUsage mbm))"
    and "validateAndRepairState js mbm w = (repaired, mbm', w')"
  shows "bridgeCount mbm' = bridgeCount mbm \<and> bridgePrefix mbm' = bridgePrefix mbm
    \<and> (\<forall>k. map_of (workspaces mbm') k =
          (case map_of (workspaces mbm) k of
             None \<Rightarrow> None
           | Some a \<Rightarrow>
               if BridgeNumber a < 0 \<or> BridgeNumber a \<ge> bridgeCount mbm then None
               else Some (a\<lparr>VMCount := (if VMCount a > 5 then 0 else VMCount a),
                            BridgeName := bridgePrefix mbm @ ''-'' @ fmt_d (BridgeNumber a)\<rparr>)))
    \<and> (\<forall>k a. map_of (workspaces mbm') k = Some a \<longrightarrow>
          0 \<le> BridgeNumber a \<and> BridgeNumber a < bridgeCount mbm' \<and> VMCount a \<le> 5
          \<and> BridgeName a = bridgePrefix mbm' @ ''-'' @ fmt_d (BridgeNumber a)
          \<and> usageEntry (bridgeUsage mbm') (BridgeNumber a) k = Some True)
    \<and> {k. \<exists>b. usageEntry (bridgeUsage mbm') b k \<noteq> None} = {k. map_of (workspaces mbm') k \<noteq> None}
    \<and> (\<forall>b wm. map_of (bridgeUsage mbm') b = Some wm \<longrightarrow> wm \<noteq> [])
    \<and> (\<forall>b k. usageEntry (bridgeUsage mbm') b k =
          (case map_of (workspaces mbm') k of
             None \<Rightarrow> None
           | Some a \<Rightarrow> if BridgeNumber a = b then Some True else usageEntry (bridgeUsage mbm) b k))"
proof -
  from validateAndRepairState_split [OF assms(1,2), of js w] assms(3)
  have p: "bridgeCount mbm' = bridgeCount mbm" "bridgePrefix mbm' = bridgePrefix mbm"
     "\<forall>k. map_of (workspaces mbm') k =
              (case map_of (workspaces mbm) k of
                 None \<Rightarrow> None
               | Some a \<Rightarrow> if badBridge mbm a then None else Some (repairedAllocation mbm a))"
     "\<forall>b wm. map_of (bridgeUsage mbm') b = Some wm \<longrightarrow> wm \<noteq> []"
     "\<forall>b k. usageEntry (bridgeUsage mbm') b k =
              (case map_of (workspaces mbm') k of
                 None \<Rightarrow> None
               | Some a \<Rightarrow> if BridgeNumber a = b then Some True else usageEntry (bridgeUsage mbm) b k)"
    by auto
  have c3: "\<forall>k. map_of (workspaces mbm') k =
          (case map_of (workspaces mbm) k of
             None \<Rightarrow> None
           | Some a \<Rightarrow>
               if BridgeNumber a < 0 \<or> BridgeNumber a \<ge> bridgeCount mbm then None
               else Some (a\<lparr>VMCount := (if VMCount a > 5 then 0 else VMCount a),
                            BridgeName := bridgePrefix mbm @ ''-'' @ fmt_d (BridgeNumber a)\<rparr>))"
    using p(3) by (auto simp: badBridge_def repairedAllocation_def bridgeNameFor_def split: option.splits)
  have c4: "0 \<le> BridgeNumber a \<and> BridgeNumber a < bridgeCount mbm' \<and> VMCount a \<le> 5
          \<and> BridgeName a = bridgePrefix mbm' @ ''-'' @ fmt_d (BridgeNumber a)
          \<and> usageEntry (bridgeUsage mbm') (BridgeNumber a) k = Some True"
    if h: "map_of (workspaces mbm') k = Some a" for k a
  proof -
    from h c3 obtain a0 where a0: "map_of (workspaces mbm) k = Some a0"
      "\<not> (BridgeNumber a0 < 0 \<or> BridgeNumber a0 \<ge> bridgeCount mbm)"
      "a = a0\<lparr>VMCount := (if VMCount a0 > 5 then 0 else VMCount a0),
               BridgeName := bridgePrefix mbm @ ''-'' @ fmt_d (BridgeNumber a0)\<rparr>"
      by (auto split: option.splits if_splits)
    have "usageEntry (bridgeUsage mbm') (BridgeNumber a) k = Some True"
      using p(5) h by simp
    then show ?thesis using a0 p(1,2) by auto
  qed
  have c5: "{k. \<exists>b. usageEntry (bridgeUsage mbm') b k \<noteq> None} = {k. map_of (workspaces mbm') k \<noteq> None}"
  proof (intro set_eqI iffI; clarify)
    fix k b y assume "usageEntry (bridgeUsage mbm') b k = Some y"
    then show "\<exists>a. map_of (workspaces mbm') k = Some a" using p(5) by (auto split: option.splits)
  next
    fix k a assume "map_of (workspaces mbm') k = Some a"
    from c4 [OF this] show "\<exists>b. usageEntry (bridgeUsage mbm') b k \<noteq> None" by auto
  qed
  show ?thesis using p(1,2,4,5) c3 c4 c5 by blast
qed

lemma repair_mbmCorrupt:
  "validateAndRepairState nullCodec mbmCorrupt world0 =
     (True,
      mbm8\<lparr>workspaces :=
        [(''ws_A'', \<lparr>WorkspaceID = ''ws_A'', BridgeNumber = 3, BridgeName = ''br-vms-3'',
                    ProjectVLANs = [], CreatedAt = ''2025-08-13T22:00:00Z'', VMCount = 0\<rparr>),
         (''ws_C'', \<lparr>WorkspaceID = ''ws_C'', BridgeNumber = 2, BridgeName = ''br-vms-2'',
                    ProjectVLANs = [], CreatedAt = ''2025-08-13T22:00:00Z'', VMCount = 5\<rparr>)],
        bridgeUsage := [(3, [(''ws_A'', True)]), (2, [(''ws_C'', True)])]\<rparr>,
      snd (saveState nullCodec (mbm8\<lparr>workspaces :=
        [(''ws_A'', \<lparr>WorkspaceID = ''ws_A'', BridgeNumber = 3, BridgeName = ''br-vms-3'',
                    ProjectVLANs = [], CreatedAt = ''2025-08-13T22:00:00Z'', VMCount = 0\<rparr>),
         (''ws_C'', \<lparr>WorkspaceID = ''ws_C'', BridgeNumber = 2, BridgeName = ''br-vms-2'',
                    ProjectVLANs = [], CreatedAt = ''2025-08-13T22:00:00Z'', VMCount = 5\<rparr>)],
        bridgeUsage := [(3, [(''ws_A'', True)]), (2, [(''ws_C'', True)])]\<rparr>) world0))"
  by (simp add: validateAndRepairState_def mbmCorrupt_def mbm8_def repairWorkspace_def
      pruneBridge_def pruneWorkspaceMap_def markBridgeUsage_def bridgeNameFor_def fmt_d_def
      uitoa.simps decimalDigits_def Let_def AList.update.simps AList.delete_eq)

theorem validateAndRepairState_postconditions_witness:
  "distinct (map fst (workspaces mbmCorrupt)) \<and> distinct (map fst (bridgeUsage mbmCorrupt))
   \<and> map_option VMCount (map_of (workspaces mbmCorrupt) ''ws_A'') = Some 25
   \<and> (case validateAndRepairState nullCodec mbmCorrupt world0 of
        (repaired, mbm', w') \<Rightarrow>
          repaired
          \<and> map_option VMCount (map_of (workspaces mbm') ''ws_A'') = Some 0
          \<and> map_of (workspaces mbm') ''ws_B'' = None
          \<and> map_option BridgeName (map_of (workspaces mbm') ''ws_C'') = Some ''br-vms-2''
          \<and> bridgeUsage mbm' = [(3, [(''ws_A'', True)]), (2, [(''ws_C'', True)])]
          \<and> {k. \<exists>b. usageEntry (bridgeUsage mbm') b k \<noteq> None}
              = {k. map_of (workspaces mbm') k \<noteq> None})"
proof -
  have d1: "distinct (map fst (workspaces mbmCorrupt))" by (simp add: mbmCorrupt_def)
  have d2: "distinct (map fst (bridgeUsage mbmCorrupt))" by (simp add: mbmCorrupt_def)
  have c: "map_option VMCount (map_of (workspaces mbmCorrupt) ''ws_A'') = Some 25"
    by (simp add: mbmCorrupt_def)
  from validateAndRepairState_postconditions [OF d1 d2 repair_mbmCorrupt]
  have "{k. \<exists>b. usageEntry (bridgeUsage (mbm8\<lparr>workspaces :=
        [(''ws_A'', \<lparr>WorkspaceID = ''ws_A'', BridgeNumber = 3, BridgeName = ''br-vms-3'',
                    ProjectVLANs = [], CreatedAt = ''2025-08-13T22:00:00Z'', VMCount = 0\<rparr>),
         (''ws_C'', \<lparr>WorkspaceID = ''ws_C'', BridgeNumber = 2, BridgeName = ''br-vms-2'',
                    ProjectVLANs = [], CreatedAt = ''2025-08-13T22:00:00Z'', VMCount = 5\<rparr>)],
        bridgeUsage := [(3, [(''ws_A'', True)]), (2, [(''ws_C'', True)])]\<rparr>)) b k \<noteq> None}
      = {k. map_of (workspaces (mbm8\<lparr>workspaces :=
        [(''ws_A'', \<lparr>WorkspaceID = ''ws_A'', BridgeNumber = 3, BridgeName = ''br-vms-3'',
                    ProjectVLANs = [], CreatedAt = ''2025-08-13T22:00:00Z'', VMCount = 0\<rparr>),
         (''ws_C'', \<lparr>WorkspaceID = ''ws_C'', BridgeNumber = 2, BridgeName = ''br-vms-2'',
                    ProjectVLANs = [], CreatedAt = ''2025-08-13T22:00:00Z'', VMCount = 5\<rparr>)],
        bridgeUsage := [(3, [(''ws_A'', True)]), (2, [(''ws_C'', True)])]\<rparr>)) k \<noteq> None}"
    by blast
  then show ?thesis using d1 d2 c by (simp add: repair_mbmCorrupt)
qed

end
